theory Spec2Isabelle
  imports Main "HOL-Library.AList" "HOL-Library.Sublist"
begin

section \<open>JavaScript values and objects\<close>

text \<open>
  The values that flow through \<^verbatim>\<open>lib/client.js\<close> and \<^verbatim>\<open>lib/provider.js\<close>.
  \<open>JErr m\<close> is an error object (a \<^verbatim>\<open>VError\<close>) whose \<^verbatim>\<open>message\<close> is \<open>m\<close>.
  \<open>JNum\<close> holds the integral numbers (HTTP status codes, counters).
  \<open>JFun f\<close> is the built-in function named \<open>f\<close> that every object inherits from
  \<^verbatim>\<open>Object.prototype\<close>.
  An object is the list of its own enumerable properties in insertion order;
  a JSON array inside a response body is carried as the object of its indices,
  which is how spread and property lookup see it.
\<close>

datatype jsval =
    JUndefined
  | JNull
  | JBool bool
  | JNum int
  | JStr string
  | JErr string
  | JFun string
  | JObj "(string \<times> jsval) list"

type_synonym jsobj = "(string \<times> jsval) list"

text \<open>ToBoolean, as used by \<^verbatim>\<open>||\<close>, \<^verbatim>\<open>if\<close> and \<^verbatim>\<open>!\<close>.\<close>

fun truthy :: "jsval \<Rightarrow> bool" where
  "truthy JUndefined = False"
| "truthy JNull = False"
| "truthy (JBool b) = b"
| "truthy (JNum n) = (n \<noteq> 0)"
| "truthy (JStr s) = (s \<noteq> [])"
| "truthy (JErr m) = True"
| "truthy (JFun f) = True"
| "truthy (JObj kvs) = True"

text \<open>\<^verbatim>\<open>obj[k]\<close> on an object: a missing property reads as \<^verbatim>\<open>undefined\<close>.\<close>

definition getp :: "jsobj \<Rightarrow> string \<Rightarrow> jsval" where
  "getp obj k = (case map_of obj k of None \<Rightarrow> JUndefined | Some v \<Rightarrow> v)"

text \<open>\<^verbatim>\<open>k in obj\<close> for own properties: the object carries a field named \<open>k\<close>.\<close>

definition hasp :: "jsobj \<Rightarrow> string \<Rightarrow> bool" where
  "hasp obj k = (k \<in> fst ` set obj)"

text \<open>\<^verbatim>\<open>obj[k] = v\<close>: an existing key keeps its position, a new key is added last.\<close>

definition setp :: "jsobj \<Rightarrow> string \<Rightarrow> jsval \<Rightarrow> jsobj" where
  "setp obj k v = AList.update k v obj"

text \<open>\<^verbatim>\<open>delete obj[k]\<close>.\<close>

definition deletep :: "jsobj \<Rightarrow> string \<Rightarrow> jsobj" where
  "deletep obj k = AList.delete k obj"

text \<open>\<^verbatim>\<open>{ ...a, ...b }\<close>: the properties of \<open>a\<close>, then those of \<open>b\<close> written over them.\<close>

definition spread :: "jsobj \<Rightarrow> jsobj \<Rightarrow> jsobj" where
  "spread a b = fold (\<lambda>(k, v) acc. setp acc k v) b a"

text \<open>Decimal rendering of numbers, as template literals produce it.\<close>

function show_nat :: "nat \<Rightarrow> string" where
  "show_nat n =
     (if n < 10 then [''0123456789'' ! n]
      else show_nat (n div 10) @ [''0123456789'' ! (n mod 10)])"
  by pat_completeness auto
termination
  by (relation "measure id") auto

declare show_nat.simps [simp del]

definition show_int :: "int \<Rightarrow> string" where
  "show_int i = (if i < 0 then CHR ''-'' # show_nat (nat (- i)) else show_nat (nat i))"

text \<open>ToString, as applied by a template literal \<^verbatim>\<open>`${v}`\<close>.\<close>

fun js_string :: "jsval \<Rightarrow> string" where
  "js_string JUndefined = ''undefined''"
| "js_string JNull = ''null''"
| "js_string (JBool b) = (if b then ''true'' else ''false'')"
| "js_string (JNum n) = show_int n"
| "js_string (JStr s) = s"
| "js_string (JErr m) = ''VError: '' @ m"
| "js_string (JFun f) = ''function '' @ f @ ''() { [native code] }''"
| "js_string (JObj kvs) = ''[object Object]''"

text \<open>
  The own enumerable properties that \<^verbatim>\<open>{ ...v }\<close> copies from an arbitrary value:
  those of an object, the indexed characters of a string, nothing for the other
  primitives.
\<close>

fun own_props :: "jsval \<Rightarrow> jsobj" where
  "own_props (JObj kvs) = kvs"
| "own_props (JStr s) = map (\<lambda>(i, ch). (show_nat i, JStr [ch])) (enumerate 0 s)"
| "own_props v = []"

text \<open>
  \<^verbatim>\<open>v.k\<close> on an arbitrary value: reading a property of \<^verbatim>\<open>undefined\<close> or
  \<^verbatim>\<open>null\<close> throws a TypeError (\<open>None\<close>); a \<^verbatim>\<open>VError\<close> has its \<^verbatim>\<open>message\<close>.
\<close>

fun member :: "jsval \<Rightarrow> string \<Rightarrow> jsval option" where
  "member JUndefined k = None"
| "member JNull k = None"
| "member (JObj kvs) k = Some (getp kvs k)"
| "member (JErr m) k = Some (if k = ''message'' then JStr m else JUndefined)"
| "member v k = Some JUndefined"

text \<open>
  What the platform supplies and the repository only calls: \<^verbatim>\<open>JSON.parse\<close>
  (\<open>Inl m\<close> is a SyntaxError with message \<open>m\<close>), the string-to-number conversion
  behind \<^verbatim>\<open>==\<close> (\<open>None\<close> when the string is no integral number), the signer
  that mints the provider token of a generation, the message of the TypeError
  raised on reading the named property of \<^verbatim>\<open>null\<close> or \<^verbatim>\<open>undefined\<close>, and
  the printf-style formatter of the \<^verbatim>\<open>verror\<close> package applied to a format string
  and no argument (\<open>Inl m\<close> is the Error with message \<open>m\<close> that it throws on a
  conversion with no matching argument).
\<close>

record platform =
  JSON_parse :: "string \<Rightarrow> string + jsval"
  StringToNumber :: "string \<Rightarrow> int option"
  mint :: "nat \<Rightarrow> string"
  TypeError_message :: "string \<Rightarrow> string"
  sprintf :: "string \<Rightarrow> string + string"

text \<open>
  \<^verbatim>\<open>new VError(msg)\<close> on one string: the constructor formats \<open>msg\<close> with no
  argument. A text without \<^verbatim>\<open>%\<close> holds no conversion and is the message as it is;
  on any other text the formatter decides, and when it throws, so does the constructor
  (\<open>Inl m\<close>).
\<close>

definition VError :: "platform \<Rightarrow> string \<Rightarrow> string + jsval" where
  "VError P msg =
     (if CHR ''%'' \<in> set msg
      then (case sprintf P msg of Inl m \<Rightarrow> Inl m | Inr formatted \<Rightarrow> Inr (JErr formatted))
      else Inr (JErr msg))"

text \<open>\<^verbatim>\<open>v == n\<close> for a number \<open>n\<close> (abstract equality, with its coercions).\<close>

fun loose_eq_num :: "platform \<Rightarrow> jsval \<Rightarrow> int \<Rightarrow> bool" where
  "loose_eq_num P (JNum m) n = (m = n)"
| "loose_eq_num P JUndefined n = False"
| "loose_eq_num P JNull n = False"
| "loose_eq_num P (JBool b) n = ((if b then 1 else 0) = n)"
| "loose_eq_num P (JStr s) n = (StringToNumber P s = Some n)"
| "loose_eq_num P v n = (StringToNumber P (js_string v) = Some n)"

text \<open>A string between double quotes, as the templates of the error messages have it.\<close>

definition quoted :: "string \<Rightarrow> string" where
  "quoted s = [CHR 0x22] @ s @ [CHR 0x22]"

text \<open>\<^verbatim>\<open>s.includes(t)\<close> on strings.\<close>

definition str_includes :: "string \<Rightarrow> string \<Rightarrow> bool" where
  "str_includes s t = sublist t s"

section \<open>The client (\<^verbatim>\<open>lib/client.js\<close>)\<close>

subsection \<open>State\<close>

text \<open>
  An HTTP/2 session object with the two flags the client reads.
  The client holds two of them, \<^verbatim>\<open>this.session\<close> and
  \<^verbatim>\<open>this.manageChannelsSession\<close>.
\<close>

record session =
  closed :: bool
  destroyed :: bool

datatype session_kind = PushSession | ManageChannelsSession

text \<open>
  Modelled from the spec: the token object that \<^verbatim>\<open>prepareToken\<close> builds
  (\<^verbatim>\<open>lib/credentials\<close> is not part of the sources at hand). It holds the current
  token string and a generation counter; \<open>stale\<close> says whether
  \<^verbatim>\<open>isExpired(3300)\<close> holds now; \<^verbatim>\<open>regenerate(g)\<close> does nothing unless
  \<open>g\<close> is the current generation, and otherwise mints a new token and increments
  the generation.
\<close>

record token =
  current :: string
  generation :: nat
  stale :: bool

definition regenerate :: "platform \<Rightarrow> nat \<Rightarrow> token \<Rightarrow> token" where
  "regenerate P g t =
     (if g = generation t
      then \<lparr> current = mint P (Suc (generation t)), generation = Suc (generation t), stale = False \<rparr>
      else t)"

text \<open>
  What the client does to the outside, in the order it does it: opening a session,
  \<^verbatim>\<open>session.request(headers)\<close>, \<^verbatim>\<open>request.write(body)\<close>, the delay before a
  retry (the argument of \<^verbatim>\<open>parseInt\<close>), entering \<^verbatim>\<open>retryRequest\<close> with a
  count, \<^verbatim>\<open>session.close\<close> and \<^verbatim>\<open>session.destroy\<close>, the shutdown callback, and
  the building of a notification by the provider (the calls of its methods, whether
  they return or throw).
\<close>

datatype event =
    Connect session_kind
  | SessionRequest session_kind jsobj
  | StreamWrite string
  | Delay jsval
  | RetryRequest int
  | SessionClose session_kind
  | SessionDestroy session_kind
  | Callback
  | Build

record config =
  address :: string
  manageChannelsAddress :: string
  connectionRetryLimit :: int

record client =
  isDestroyed :: bool
  push_session :: "session option"
  manageChannelsSession :: "session option"
  config_token :: "token option"
  events :: "event list"

definition emit :: "event \<Rightarrow> client \<Rightarrow> client" where
  "emit e c = c\<lparr> events := events c @ [e] \<rparr>"

definition session_of :: "session_kind \<Rightarrow> client \<Rightarrow> session option" where
  "session_of k c = (case k of PushSession \<Rightarrow> push_session c | ManageChannelsSession \<Rightarrow> manageChannelsSession c)"

definition set_session :: "session_kind \<Rightarrow> session option \<Rightarrow> client \<Rightarrow> client" where
  "set_session k s c =
     (case k of PushSession \<Rightarrow> c\<lparr> push_session := s \<rparr>
      | ManageChannelsSession \<Rightarrow> c\<lparr> manageChannelsSession := s \<rparr>)"

definition authority_of :: "config \<Rightarrow> session_kind \<Rightarrow> string" where
  "authority_of cfg k = (case k of PushSession \<Rightarrow> address cfg | ManageChannelsSession \<Rightarrow> manageChannelsAddress cfg)"

subsection \<open>Paths and labels\<close>

definition makePath :: "string \<Rightarrow> string \<Rightarrow> string option" where
  "makePath type subDirectory =
     (if type = ''channels'' then Some (''/1/apps/'' @ subDirectory @ ''/channels'')
      else if type = ''allChannels'' then Some (''/1/apps/'' @ subDirectory @ ''/all-channels'')
      else if type = ''device'' then Some (''/3/device/'' @ subDirectory)
      else if type = ''broadcasts'' then Some (''/4/broadcasts/apps/'' @ subDirectory)
      else None)"

definition subDirectoryLabel :: "string \<Rightarrow> string option" where
  "subDirectoryLabel type =
     (if type = ''device'' then Some ''device''
      else if type = ''channels'' \<or> type = ''allChannels'' \<or> type = ''broadcasts'' then Some ''bundleId''
      else None)"

text \<open>
  \<^verbatim>\<open>subDirectoryObject[label] = subDirectory\<close> on a fresh object. The label
  \<^verbatim>\<open>__proto__\<close> names the inherited accessor, whose setter ignores a string: the
  object stays empty.
\<close>

definition makeSubDirectoryTypeObject :: "string \<Rightarrow> string \<Rightarrow> jsobj" where
  "makeSubDirectoryTypeObject label subDirectory =
     (if label = ''__proto__'' then [] else setp [] label (JStr subDirectory))"

text \<open>
  The functions that a plain object inherits from \<^verbatim>\<open>Object.prototype\<close>, by name.
\<close>

definition Object_prototype :: "string list" where
  "Object_prototype =
     [''constructor'', ''__defineGetter__'', ''__defineSetter__'', ''hasOwnProperty'',
      ''__lookupGetter__'', ''__lookupSetter__'', ''isPrototypeOf'', ''propertyIsEnumerable'',
      ''toString'', ''valueOf'', ''toLocaleString'']"

text \<open>
  \<^verbatim>\<open>HTTPMethod[method]\<close>, a property lookup on the plain object
  \<^verbatim>\<open>{ post, get, delete }\<close>: \<open>None\<close> when the lookup gives
  \<^verbatim>\<open>undefined\<close>. A name that the object inherits is found too: it gives a
  function, and \<^verbatim>\<open>__proto__\<close> gives the prototype object itself.
\<close>

definition HTTPMethod :: "string \<Rightarrow> jsval option" where
  "HTTPMethod method =
     (if method = ''post'' then Some (JStr ''POST'')
      else if method = ''get'' then Some (JStr ''GET'')
      else if method = ''delete'' then Some (JStr ''DELETE'')
      else if method = ''__proto__'' then Some (JObj [])
      else if method \<in> set Object_prototype then Some (JFun method)
      else None)"

definition retryStatusCodes :: "jsval list" where
  "retryStatusCodes = [JNum 408, JNum 429, JNum 500, JNum 502, JNum 503, JNum 504]"

subsection \<open>One request on a session\<close>

text \<open>
  The built notification handed to \<^verbatim>\<open>write\<close>:
  \<^verbatim>\<open>{ headers: notification.headers(), body: notification.compile() }\<close>.
\<close>

record built =
  headers :: jsobj
  body :: string

text \<open>
  What the HTTP/2 stream of one request does, up to the first event that settles the
  promise: it ends (after an optional \<^verbatim>\<open>response\<close> event with the response
  headers, and the \<^verbatim>\<open>data\<close> chunks, here concatenated), the request timeout
  fires, or the stream emits \<^verbatim>\<open>aborted\<close>, \<^verbatim>\<open>error\<close> (with a string or an
  error object, given by its message) or \<^verbatim>\<open>frameError\<close>.
\<close>

datatype stream_error = ErrorText string | ErrorObject string

datatype stream =
    Ended "jsobj option" string
  | TimedOut
  | StreamAborted
  | StreamError stream_error
  | StreamFrameError int int int

text \<open>
  Modelled from the spec: \<^verbatim>\<open>extend\<close> of \<^verbatim>\<open>lib/util/extend.js\<close>, which is not
  part of the sources at hand: the base headers "overlaid with" the notification's.
\<close>

definition extend :: "jsobj \<Rightarrow> jsobj \<Rightarrow> jsobj" where
  "extend target source = spread target source"

definition createHeaderObject :: "jsval \<Rightarrow> jsval \<Rightarrow> jsval \<Rightarrow> jsobj" where
  "createHeaderObject uniqueId requestId channelId =
     (let header = [];
          header = (if truthy uniqueId then setp header ''apns-unique-id'' uniqueId else header);
          header = (if truthy requestId then setp header ''apns-request-id'' requestId else header);
          header = (if truthy channelId then setp header ''apns-channel-id'' channelId else header)
      in header)"

text \<open>
  The \<^verbatim>\<open>catch (e)\<close> of the \<^verbatim>\<open>end\<close> handler:
  \<^verbatim>\<open>reject({ error: new VError(e, 'Unexpected error processing APNs response') })\<close>.
\<close>

definition unexpected :: "string \<Rightarrow> jsobj" where
  "unexpected cause = [(''error'', JErr (''Unexpected error processing APNs response: '' @ cause))]"

text \<open>
  The \<^verbatim>\<open>end\<close> handler of \<^verbatim>\<open>request\<close>, on the captured \<open>status\<close>,
  \<open>retryAfter\<close>, echoes and \<open>responseData\<close>. \<open>Inr\<close> is \<^verbatim>\<open>resolve\<close>,
  \<open>Inl\<close> is \<^verbatim>\<open>reject\<close>; the token is returned as the handler leaves it.
  \<^verbatim>\<open>response.reason\<close> is read only behind \<^verbatim>\<open>status === 403\<close> and behind
  \<^verbatim>\<open>status === 500\<close>, so only there can a body that parses to \<^verbatim>\<open>null\<close> make
  the handler throw; whatever is thrown inside the handler is caught and rejected as
  \<open>unexpected\<close>.
\<close>

definition on_end ::
  "platform \<Rightarrow> token option \<Rightarrow> nat \<Rightarrow> jsval \<Rightarrow> jsval \<Rightarrow> jsval \<Rightarrow> jsval \<Rightarrow> jsval \<Rightarrow> string
     \<Rightarrow> (jsobj + jsobj) \<times> token option" where
  "on_end P tok tokenGeneration status retryAfter uniqueId requestId channelId responseData =
     (let headerObject = createHeaderObject uniqueId requestId channelId in
      if status = JNum 200 \<or> status = JNum 201 \<or> status = JNum 204 then
        (case (if responseData \<noteq> [] then JSON_parse P responseData else Inr (JObj [])) of
           Inl m \<Rightarrow> (Inl (unexpected m), tok)
         | Inr body' \<Rightarrow> (Inr (spread headerObject (own_props body')), tok))
      else if status \<in> set [JStr ''(timeout)'', JStr ''(aborted)'', JStr ''(error)''] then
        (Inl (spread headerObject
               [(''status'', status), (''retryAfter'', retryAfter),
                (''error'', JErr ''Timeout, aborted, or other unknown error'')]), tok)
      else if responseData \<noteq> [] then
        (case JSON_parse P responseData of
           Inl m \<Rightarrow> (Inl (unexpected m), tok)
         | Inr response \<Rightarrow>
            (let rejected =
                   (Inl (spread headerObject
                          [(''status'', status), (''retryAfter'', retryAfter),
                           (''response'', response)]), tok)
             in if status = JNum 403 then
                  (case member response ''reason'' of
                     None \<Rightarrow> (Inl (unexpected (TypeError_message P ''reason'')), tok)
                   | Some reason \<Rightarrow>
                       if reason = JStr ''ExpiredProviderToken'' then
                         (case tok of
                            None \<Rightarrow> (Inl (unexpected (TypeError_message P ''regenerate'')), tok)
                          | Some t \<Rightarrow>
                              (Inl (spread headerObject
                                     [(''status'', status), (''retryAfter'', retryAfter),
                                      (''error'', JErr (js_string reason))]),
                               Some (regenerate P tokenGeneration t)))
                       else rejected)
                else if status = JNum 500 then
                  (case member response ''reason'' of
                     None \<Rightarrow> (Inl (unexpected (TypeError_message P ''reason'')), tok)
                   | Some reason \<Rightarrow>
                       if reason = JStr ''InternalServerError'' then
                         (Inl (spread headerObject
                                [(''status'', status), (''retryAfter'', retryAfter),
                                 (''error'', JErr ''Error 500, stream ended unexpectedly'')]), tok)
                       else rejected)
                else rejected))
      else
        (case VError P (''stream ended unexpectedly with status '' @ js_string status
                          @ '' and empty body'') of
           Inl m \<Rightarrow> (Inl (unexpected m), tok)
         | Inr e \<Rightarrow> (Inl (spread headerObject [(''error'', e)]), tok)))"

text \<open>
  \<^verbatim>\<open>Client.prototype.request\<close>. The session is named by its kind; \<open>s\<close> is what the
  stream does. Before the \<^verbatim>\<open>response\<close> event the captured values are
  \<^verbatim>\<open>null\<close>.
\<close>

definition request ::
  "platform \<Rightarrow> client \<Rightarrow> session_kind \<Rightarrow> string \<Rightarrow> built \<Rightarrow> string \<Rightarrow> jsval \<Rightarrow> stream
     \<Rightarrow> (jsobj + jsobj) \<times> client" where
  "request P c kind addr notification path httpMethod s =
     (let hdrs = extend
            [('':scheme'', JStr ''https''), ('':method'', httpMethod),
             ('':authority'', JStr addr), ('':path'', JStr path)]
            (headers notification);
          tok = (case config_token c of
                   None \<Rightarrow> None
                 | Some t \<Rightarrow> Some (if stale t then regenerate P (generation t) t else t));
          hdrs = (case tok of
                    None \<Rightarrow> hdrs
                  | Some t \<Rightarrow> setp hdrs ''authorization'' (JStr (''bearer '' @ current t)));
          tokenGeneration = (case tok of None \<Rightarrow> 0 | Some t \<Rightarrow> generation t);
          c1 = emit (SessionRequest kind hdrs) (c\<lparr> config_token := tok \<rparr>);
          c2 = (if body notification \<noteq> ''{}'' then emit (StreamWrite (body notification)) c1 else c1)
      in case s of
           Ended response responseData \<Rightarrow>
             (let (r, tok') =
                    (case response of
                       None \<Rightarrow> on_end P tok tokenGeneration JNull JNull JNull JNull JNull responseData
                     | Some h \<Rightarrow>
                         on_end P tok tokenGeneration (getp h '':status'') (getp h ''Retry-After'')
                           (getp h ''apns-unique-id'') (getp h ''apns-request-id'')
                           (getp h ''apns-channel-id'') responseData)
              in (r, c2\<lparr> config_token := tok' \<rparr>))
         | TimedOut \<Rightarrow> (Inl [(''error'', JErr ''apn write timeout'')], c2)
         | StreamAborted \<Rightarrow> (Inl [(''error'', JErr ''apn write aborted'')], c2)
         | StreamError e \<Rightarrow>
             (Inl [(''error'', JErr (''apn write failed: '' @
                      (case e of ErrorText m \<Rightarrow> m | ErrorObject m \<Rightarrow> m)))], c2)
         | StreamFrameError frameType errorCode streamId \<Rightarrow>
             (Inl [(''error'', JErr (''Request frame error: (frameType: '' @ show_int frameType
                      @ '', errorCode '' @ show_int errorCode
                      @ '', streamId: '' @ show_int streamId @ '')''))], c2))"

subsection \<open>Sessions\<close>

text \<open>
  \<^verbatim>\<open>connect\<close> and \<^verbatim>\<open>manageChannelsConnect\<close>: dialling the proxy may reject (with
  the object \<open>e\<close>); otherwise \<^verbatim>\<open>http2.connect\<close> stores a fresh session.
\<close>

definition connect :: "session_kind \<Rightarrow> jsobj option \<Rightarrow> client \<Rightarrow> (jsobj + unit) \<times> client" where
  "connect kind failure c =
     (case failure of
        Some e \<Rightarrow> (Inl e, c)
      | None \<Rightarrow>
          (Inr (), emit (Connect kind)
                     (set_session kind (Some \<lparr> closed = False, destroyed = False \<rparr>) c)))"

definition closeAndDestroySession :: "session_kind \<Rightarrow> client \<Rightarrow> client" where
  "closeAndDestroySession kind c =
     (case session_of kind c of
        None \<Rightarrow> c
      | Some s \<Rightarrow>
          (let c1 = (if \<not> closed s then emit (SessionClose kind) c else c);
               c2 = (if \<not> destroyed s then emit (SessionDestroy kind) c1 else c1)
           in set_session kind (Some \<lparr> closed = True, destroyed = True \<rparr>) c2))"

text \<open>
  What the network does to one \<^verbatim>\<open>write\<close>: whether connecting is refused, and for
  each request in turn what its stream does and whether, by the time a failed request
  has been handled, a session event (\<^verbatim>\<open>error\<close>, \<^verbatim>\<open>goaway\<close>, \<^verbatim>\<open>frameError\<close>)
  has made the handlers close and destroy the session.
\<close>

record attempt =
  outcome :: stream
  session_lost :: bool

record network =
  connect_error :: "jsobj option"
  attempts :: "nat \<Rightarrow> attempt"

definition session_event :: "session_kind \<Rightarrow> bool \<Rightarrow> client \<Rightarrow> client" where
  "session_event kind lost c = (if lost then closeAndDestroySession kind c else c)"

subsection \<open>Retrying\<close>

text \<open>
  The test \<^verbatim>\<open>write\<close> applies to a rejected request. (\<^verbatim>\<open>error.error.message\<close> on
  an \<^verbatim>\<open>error\<close> that is \<^verbatim>\<open>null\<close> would throw; no rejection of \<open>request\<close> has
  one, see \<open>request_error_field\<close>.)
\<close>

definition retryable :: "platform \<Rightarrow> jsobj \<Rightarrow> bool" where
  "retryable P error =
     (getp error ''status'' \<in> set retryStatusCodes \<or>
      (getp error ''error'' \<noteq> JUndefined \<and>
       loose_eq_num P (getp error ''status'') 403 \<and>
       member (getp error ''error'') ''message'' = Some (JStr ''ExpiredProviderToken'')))"

text \<open>
  \<^verbatim>\<open>Client.prototype.retryRequest\<close>. \<open>att\<close> gives the behaviour of the requests
  still to come. A session that is absent makes \<^verbatim>\<open>session.closed\<close> throw a
  TypeError, an error object with no enumerable property.
\<close>

function retryRequest ::
  "platform \<Rightarrow> config \<Rightarrow> (nat \<Rightarrow> attempt) \<Rightarrow> client \<Rightarrow> jsobj \<Rightarrow> session_kind \<Rightarrow> string
     \<Rightarrow> built \<Rightarrow> string \<Rightarrow> jsval \<Rightarrow> int \<Rightarrow> (jsobj + jsobj) \<times> client" where
  "retryRequest P cfg att c error kind addr notification path httpMethod count =
     (let c0 = emit (RetryRequest count) c in
      if isDestroyed c0 then
        (Inl [(''error'', JErr ''client session is either closed or destroyed'')], c0)
      else
        (case session_of kind c0 of
           None \<Rightarrow> (Inl [], c0)
         | Some s \<Rightarrow>
            if closed s then
              (Inl [(''error'', JErr ''client session is either closed or destroyed'')], c0)
            else if count + 1 > connectionRetryLimit cfg then (Inl error, c0)
            else
              (case request P
                      (emit (Delay (if truthy (getp error ''retryAfter'')
                                    then getp error ''retryAfter'' else JNum 0)) c0)
                      kind addr notification path httpMethod (outcome (att 0)) of
                 (Inr sentRequest, c1) \<Rightarrow> (Inr sentRequest, c1)
               | (Inl error', c1) \<Rightarrow>
                   retryRequest P cfg (\<lambda>n. att (Suc n)) (session_event kind (session_lost (att 0)) c1)
                     error' kind addr notification path httpMethod (count + 1))))"
  by pat_completeness auto
termination
  by (relation "measure (\<lambda>(P, cfg, att, c, error, kind, addr, notification, path, httpMethod, count).
                  nat (connectionRetryLimit cfg - count))") auto

declare retryRequest.simps [simp del]

subsection \<open>\<^verbatim>\<open>write\<close>\<close>

text \<open>
  The two branches of \<^verbatim>\<open>Client.prototype.write\<close> after the three guards. They are
  the same code on the two sessions, except that only the push branch deletes
  \<^verbatim>\<open>retryAfter\<close> from the error of a refused connection. Each begins by
  connecting when the session is absent, closed or destroyed.
\<close>

definition ensure_connected :: "session_kind \<Rightarrow> network \<Rightarrow> client \<Rightarrow> (jsobj + unit) \<times> client" where
  "ensure_connected kind net c =
     (case session_of kind c of
        None \<Rightarrow> connect kind (connect_error net) c
      | Some s \<Rightarrow>
          if closed s \<or> destroyed s then connect kind (connect_error net) c
          else (Inr (), c))"

definition write_on ::
  "platform \<Rightarrow> config \<Rightarrow> network \<Rightarrow> client \<Rightarrow> session_kind \<Rightarrow> jsobj \<Rightarrow> built \<Rightarrow> string
     \<Rightarrow> jsval \<Rightarrow> int \<Rightarrow> (jsobj + jsobj) \<times> client" where
  "write_on P cfg net c kind subDirectoryInformation notification path httpMethod retryCount =
     (case ensure_connected kind net c of
        (Inl error, c1) \<Rightarrow>
          (Inl (setp subDirectoryInformation ''error''
                  (JObj (case kind of
                           PushSession \<Rightarrow> deletep error ''retryAfter''
                         | ManageChannelsSession \<Rightarrow> error))), c1)
      | (Inr u, c1) \<Rightarrow>
          (case request P c1 kind (authority_of cfg kind) notification path httpMethod
                  (outcome (attempts net 0)) of
             (Inr sentRequest, c2) \<Rightarrow> (Inr (spread subDirectoryInformation sentRequest), c2)
           | (Inl error, c2) \<Rightarrow>
               if retryable P error then
                 (case retryRequest P cfg (\<lambda>n. attempts net (Suc n))
                         (session_event kind (session_lost (attempts net 0)) c2)
                         error kind (authority_of cfg kind) notification path httpMethod retryCount of
                    (Inr resentRequest, c3) \<Rightarrow>
                      (Inr (spread subDirectoryInformation resentRequest), c3)
                  | (Inl error', c3) \<Rightarrow>
                      (Inl (spread subDirectoryInformation (deletep error' ''retryAfter'')),
                       if loose_eq_num P (getp error' ''status'') 500
                       then closeAndDestroySession kind c3 else c3))
               else
                 (Inl (spread subDirectoryInformation (deletep error ''retryAfter'')),
                  session_event kind (session_lost (attempts net 0)) c2)))"

text \<open>
  \<^verbatim>\<open>Client.prototype.write\<close> (\<open>write\<close> alone is a keyword here): \<open>Inl\<close> is the
  thrown object, \<open>Inr\<close> the returned one. \<open>count\<close> is \<open>None\<close> when the argument
  is left out, as the provider does. The messages of the first two guards quote the
  arguments, so \<^verbatim>\<open>new VError\<close> may throw while the failure is being built; then
  the Error of the formatter is what \<^verbatim>\<open>write\<close> throws, an object with no
  enumerable property and without the label.
\<close>

definition write_client ::
  "platform \<Rightarrow> config \<Rightarrow> network \<Rightarrow> client \<Rightarrow> built \<Rightarrow> string \<Rightarrow> string \<Rightarrow> string \<Rightarrow> int option
     \<Rightarrow> (jsobj + jsobj) \<times> client" where
  "write_client P cfg net c notification subDirectory type method count =
     (let retryCount = (case count of None \<Rightarrow> 0 | Some n \<Rightarrow> n);
          label = (case subDirectoryLabel type of None \<Rightarrow> type | Some l \<Rightarrow> l);
          subDirectoryInformation = makeSubDirectoryTypeObject label subDirectory
      in case makePath type subDirectory of
           None \<Rightarrow>
             (case VError P (''could not make a path for '' @ type @ '' and '' @ subDirectory) of
                Inl m \<Rightarrow> (Inl [], c)
              | Inr e \<Rightarrow> (Inl (setp subDirectoryInformation ''error'' e), c))
         | Some path \<Rightarrow>
             (case HTTPMethod method of
                None \<Rightarrow>
                  (case VError P (''invalid httpMethod '' @ quoted method) of
                     Inl m \<Rightarrow> (Inl [], c)
                   | Inr e \<Rightarrow> (Inl (setp subDirectoryInformation ''error'' e), c))
              | Some httpMethod \<Rightarrow>
                  if isDestroyed c then
                    (Inl (setp subDirectoryInformation ''error'' (JErr ''client is destroyed'')), c)
                  else if str_includes path ''/1/apps/'' then
                    write_on P cfg net c ManageChannelsSession subDirectoryInformation
                      notification path httpMethod retryCount
                  else
                    write_on P cfg net c PushSession subDirectoryInformation
                      notification path httpMethod retryCount))"


section \<open>The provider (\<^verbatim>\<open>lib/provider.js\<close>)\<close>

text \<open>
  An argument that is one value or an array of them, and
  \<^verbatim>\<open>if (!Array.isArray(x)) { x = [x]; }\<close>.
\<close>

datatype 'a one_or_many = One 'a | Many "'a list"

fun as_array :: "'a one_or_many \<Rightarrow> 'a list" where
  "as_array (One x) = [x]"
| "as_array (Many xs) = xs"

text \<open>
  The notification is a value of the caller; the provider calls four of its methods.
  Each either returns or throws (\<open>None\<close>): \<^verbatim>\<open>headers\<close> and \<^verbatim>\<open>compile\<close>
  return the headers and the body, the other two return the notification as they leave
  it. What is thrown is an Error (the TypeError of a call on \<^verbatim>\<open>null\<close>, the
  error of \<^verbatim>\<open>JSON.stringify\<close>), an object with no enumerable property.
\<close>

record 'n collaborator =
  notification_headers :: "'n \<Rightarrow> jsobj option"
  compile :: "'n \<Rightarrow> string option"
  addPushTypeToPayloadIfNeeded :: "'n \<Rightarrow> 'n option"
  removeNonChannelRelatedProperties :: "'n \<Rightarrow> 'n option"

text \<open>
  \<^verbatim>\<open>{ headers: notification.headers(), body: notification.compile() }\<close>, and the
  statements that \<^verbatim>\<open>manageChannels\<close> runs on a notification up to that object.
\<close>

definition buildNotification :: "'n collaborator \<Rightarrow> 'n \<Rightarrow> built option" where
  "buildNotification N notification =
     (case notification_headers N notification of
        None \<Rightarrow> None
      | Some h \<Rightarrow>
          (case compile N notification of
             None \<Rightarrow> None
           | Some b \<Rightarrow> Some \<lparr> headers = h, body = b \<rparr>))"

definition buildChannelNotification :: "'n collaborator \<Rightarrow> string \<Rightarrow> 'n \<Rightarrow> built option" where
  "buildChannelNotification N action notification =
     (case (if action = ''create''
            then addPushTypeToPayloadIfNeeded N notification else Some notification) of
        None \<Rightarrow> None
      | Some n1 \<Rightarrow>
          (case removeNonChannelRelatedProperties N n1 of
             None \<Rightarrow> None
           | Some n2 \<Rightarrow> buildNotification N n2))"

text \<open>An element of the array that \<^verbatim>\<open>Promise.allSettled\<close> resolves to.\<close>

datatype settled = Fulfilled jsobj | Rejected jsobj

record batch =
  sent :: "jsobj list"
  failed :: "jsobj list"

text \<open>The body of the \<^verbatim>\<open>forEach\<close> that fills \<^verbatim>\<open>sent\<close> and \<^verbatim>\<open>failed\<close>.\<close>

definition collect :: "batch \<Rightarrow> settled \<Rightarrow> batch" where
  "collect acc sentNotification =
     (case sentNotification of
        Fulfilled sentNotificationValue \<Rightarrow>
          if truthy (getp sentNotificationValue ''status'')
             \<or> truthy (getp sentNotificationValue ''error'')
          then acc\<lparr> failed := failed acc @ [sentNotificationValue] \<rparr>
          else acc\<lparr> sent := sent acc @ [sentNotificationValue] \<rparr>
      | Rejected reason \<Rightarrow> acc\<lparr> failed := failed acc @ [reason] \<rparr>)"

definition aggregate :: "settled list \<Rightarrow> batch" where
  "aggregate sentNotifications = foldl collect \<lparr> sent = [], failed = [] \<rparr> sentNotifications"

text \<open>
  \<^verbatim>\<open>Promise.allSettled(xs.map(async x => ...))\<close>: one task per element, each with the
  network behaviour it meets, run here in input order on the shared client; the
  results keep the input order.
\<close>

fun settle_all ::
  "(network \<Rightarrow> client \<Rightarrow> 'a \<Rightarrow> (jsobj + jsobj) \<times> client) \<Rightarrow> (nat \<Rightarrow> network) \<Rightarrow> client
     \<Rightarrow> 'a list \<Rightarrow> settled list \<times> client" where
  "settle_all task nets c [] = ([], c)"
| "settle_all task nets c (x # xs) =
     (case task (nets 0) c x of
        (r, c1) \<Rightarrow>
          (case settle_all task (\<lambda>n. nets (Suc n)) c1 xs of
             (rs, c2) \<Rightarrow> ((case r of Inl e \<Rightarrow> Rejected e | Inr v \<Rightarrow> Fulfilled v) # rs, c2)))"

text \<open>
  The three public operations, each in three steps: the \<^verbatim>\<open>async\<close> callback that is
  mapped over the recipients or notifications, the array \<^verbatim>\<open>sentNotifications\<close> that
  \<^verbatim>\<open>Promise.allSettled\<close> resolves to, and the operation itself, where \<open>Inl\<close> is a
  rejected promise and \<open>Inr\<close> the \<^verbatim>\<open>{ sent, failed }\<close> it resolves to.
  \<^verbatim>\<open>send\<close> builds the notification once, before the fan-out, so an error thrown
  there rejects the call; \<^verbatim>\<open>manageChannels\<close> and \<^verbatim>\<open>broadcast\<close> build inside
  the callback, where it rejects the promise of that notification only.
\<close>

definition send_task ::
  "platform \<Rightarrow> config \<Rightarrow> built \<Rightarrow> network \<Rightarrow> client \<Rightarrow> string \<Rightarrow> (jsobj + jsobj) \<times> client" where
  "send_task P cfg builtNotification net c token =
     write_client P cfg net c builtNotification token ''device'' ''post'' None"

definition send_sentNotifications ::
  "platform \<Rightarrow> config \<Rightarrow> (nat \<Rightarrow> network) \<Rightarrow> client \<Rightarrow> built \<Rightarrow> string one_or_many
     \<Rightarrow> settled list \<times> client" where
  "send_sentNotifications P cfg nets c builtNotification recipients =
     settle_all (send_task P cfg builtNotification) nets c (as_array recipients)"

definition send ::
  "platform \<Rightarrow> config \<Rightarrow> 'n collaborator \<Rightarrow> (nat \<Rightarrow> network) \<Rightarrow> client \<Rightarrow> 'n
     \<Rightarrow> string one_or_many \<Rightarrow> (jsobj + batch) \<times> client" where
  "send P cfg N nets c notification recipients =
     (case buildNotification N notification of
        None \<Rightarrow> (Inl [], emit Build c)
      | Some b \<Rightarrow>
          (case send_sentNotifications P cfg nets (emit Build c) b recipients of
             (sentNotifications, c1) \<Rightarrow> (Inr (aggregate sentNotifications), c1)))"

text \<open>The \<^verbatim>\<open>switch (action)\<close>: the type and method of a supported action.\<close>

definition action_route :: "string \<Rightarrow> (string \<times> string) option" where
  "action_route action =
     (if action = ''create'' then Some (''channels'', ''post'')
      else if action = ''read'' then Some (''channels'', ''get'')
      else if action = ''readAll'' then Some (''allChannels'', ''get'')
      else if action = ''delete'' then Some (''channels'', ''delete'')
      else None)"

definition manageChannels_task ::
  "platform \<Rightarrow> config \<Rightarrow> 'n collaborator \<Rightarrow> string \<Rightarrow> string \<Rightarrow> string \<Rightarrow> string
     \<Rightarrow> network \<Rightarrow> client \<Rightarrow> 'n \<Rightarrow> (jsobj + jsobj) \<times> client" where
  "manageChannels_task P cfg N bundleId action type method net c notification =
     (case buildChannelNotification N action notification of
        None \<Rightarrow> (Inl [], emit Build c)
      | Some b \<Rightarrow> write_client P cfg net (emit Build c) b bundleId type method None)"

definition manageChannels_sentNotifications ::
  "platform \<Rightarrow> config \<Rightarrow> 'n collaborator \<Rightarrow> (nat \<Rightarrow> network) \<Rightarrow> client \<Rightarrow> 'n one_or_many
     \<Rightarrow> string \<Rightarrow> string \<Rightarrow> string \<Rightarrow> string \<Rightarrow> settled list \<times> client" where
  "manageChannels_sentNotifications P cfg N nets c notifications bundleId action type method =
     settle_all (manageChannels_task P cfg N bundleId action type method)
       nets c (as_array notifications)"

definition manageChannels ::
  "platform \<Rightarrow> config \<Rightarrow> 'n collaborator \<Rightarrow> (nat \<Rightarrow> network) \<Rightarrow> client \<Rightarrow> 'n one_or_many
     \<Rightarrow> string \<Rightarrow> string \<Rightarrow> (jsobj + batch) \<times> client" where
  "manageChannels P cfg N nets c notifications bundleId action =
     (case action_route action of
        None \<Rightarrow>
          (case VError P (''the action '' @ quoted action @ '' is not supported'') of
             Inl m \<Rightarrow> (Inl [], c)
           | Inr e \<Rightarrow> (Inl [(''bundleId'', JStr bundleId), (''error'', e)], c))
      | Some (type, method) \<Rightarrow>
          (case manageChannels_sentNotifications P cfg N nets c notifications bundleId action
                  type method of
             (sentNotifications, c1) \<Rightarrow> (Inr (aggregate sentNotifications), c1)))"

definition broadcast_task ::
  "platform \<Rightarrow> config \<Rightarrow> 'n collaborator \<Rightarrow> string \<Rightarrow> network \<Rightarrow> client \<Rightarrow> 'n
     \<Rightarrow> (jsobj + jsobj) \<times> client" where
  "broadcast_task P cfg N bundleId net c notification =
     (case buildNotification N notification of
        None \<Rightarrow> (Inl [], emit Build c)
      | Some b \<Rightarrow> write_client P cfg net (emit Build c) b bundleId ''broadcasts'' ''post'' None)"

definition broadcast_sentNotifications ::
  "platform \<Rightarrow> config \<Rightarrow> 'n collaborator \<Rightarrow> (nat \<Rightarrow> network) \<Rightarrow> client \<Rightarrow> 'n one_or_many
     \<Rightarrow> string \<Rightarrow> settled list \<times> client" where
  "broadcast_sentNotifications P cfg N nets c notifications bundleId =
     settle_all (broadcast_task P cfg N bundleId) nets c (as_array notifications)"

definition broadcast ::
  "platform \<Rightarrow> config \<Rightarrow> 'n collaborator \<Rightarrow> (nat \<Rightarrow> network) \<Rightarrow> client \<Rightarrow> 'n one_or_many
     \<Rightarrow> string \<Rightarrow> (jsobj + batch) \<times> client" where
  "broadcast P cfg N nets c notifications bundleId =
     (case broadcast_sentNotifications P cfg N nets c notifications bundleId of
        (sentNotifications, c1) \<Rightarrow> (Inr (aggregate sentNotifications), c1))"

section \<open>Concrete inputs\<close>

text \<open>
  A platform for running the model on concrete inputs: \<^verbatim>\<open>JSON.parse\<close> on the few
  texts used below (every other text is taken as malformed, as the text
  \<^verbatim>\<open><html>\<close> is), the number conversion on two decimal strings, and the
  formatter on the texts used below: one that holds the conversion \<^verbatim>\<open>%s\<close> has no
  argument for it and makes the formatter throw, the others are returned as they are.
\<close>

definition sample_parse :: "string \<Rightarrow> string + jsval" where
  "sample_parse s =
     (if s = ''{}'' then Inr (JObj [])
      else if s = ''null'' then Inr JNull
      else if s = ''{'' @ quoted ''status'' @ '':0}'' then Inr (JObj [(''status'', JNum 0)])
      else if s = ''{'' @ quoted ''error'' @ '':1,'' @ quoted ''retryAfter'' @ '':5}''
        then Inr (JObj [(''error'', JNum 1), (''retryAfter'', JNum 5)])
      else if s = ''{'' @ quoted ''reason'' @ '':'' @ quoted ''BadDeviceToken'' @ ''}''
        then Inr (JObj [(''reason'', JStr ''BadDeviceToken'')])
      else if s = ''{'' @ quoted ''reason'' @ '':'' @ quoted ''ExpiredProviderToken'' @ ''}''
        then Inr (JObj [(''reason'', JStr ''ExpiredProviderToken'')])
      else Inl ''Unexpected token'')"

definition sample_platform :: platform where
  "sample_platform =
     \<lparr> JSON_parse = sample_parse,
       StringToNumber = (\<lambda>s. if s = ''403'' then Some 403 else if s = ''500'' then Some 500 else None),
       mint = (\<lambda>g. ''jwt-'' @ show_nat g),
       TypeError_message = (\<lambda>k. ''Cannot read properties of null (reading '' @ k @ '')''),
       sprintf = (\<lambda>s. if sublist ''%s'' s then Inl ''too few args to sprintf'' else Inr s) \<rparr>"

definition sample_config :: config where
  "sample_config =
     \<lparr> address = ''api.push.apple.com'',
       manageChannelsAddress = ''api-manage-broadcast.push.apple.com'',
       connectionRetryLimit = 3 \<rparr>"

text \<open>A client as the constructor leaves it: no session yet, certificate credentials.\<close>

definition new_client :: client where
  "new_client =
     \<lparr> isDestroyed = False, push_session = None, manageChannelsSession = None,
       config_token = None, events = [] \<rparr>"

text \<open>A network on which every request meets the same stream and no session is lost.\<close>

definition steady :: "stream \<Rightarrow> network" where
  "steady s = \<lparr> connect_error = None, attempts = (\<lambda>n. \<lparr> outcome = s, session_lost = False \<rparr>) \<rparr>"

text \<open>
  Notifications given by their headers and body, whose methods return; and notifications
  on which \<^verbatim>\<open>compile\<close> throws.
\<close>

definition plain_notifications :: "built collaborator" where
  "plain_notifications =
     \<lparr> notification_headers = (\<lambda>n. Some (headers n)), compile = (\<lambda>n. Some (body n)),
       addPushTypeToPayloadIfNeeded = Some, removeNonChannelRelatedProperties = Some \<rparr>"


section \<open>Reading the event log\<close>

text \<open>The events a step adds to the log, and the number of requests among events.\<close>

definition new_events :: "client \<Rightarrow> client \<Rightarrow> event list" where
  "new_events c c' = drop (length (events c)) (events c')"

fun is_request :: "event \<Rightarrow> bool" where
  "is_request (SessionRequest kind hdrs) = True"
| "is_request e = False"

definition requests_in :: "event list \<Rightarrow> nat" where
  "requests_in es = length (filter is_request es)"

fun settled_value :: "settled \<Rightarrow> jsobj" where
  "settled_value (Fulfilled v) = v"
| "settled_value (Rejected r) = r"

fun to_settled :: "jsobj + jsobj \<Rightarrow> settled" where
  "to_settled (Inl e) = Rejected e"
| "to_settled (Inr v) = Fulfilled v"


section \<open>Properties\<close>

subsection \<open>The event log only grows\<close>

lemma events_emit: "events (emit e c) = events c @ [e]"
  by (simp add: emit_def)

lemma request_events:
  "\<exists>hdrs. events (snd (request P c kind addr n path m s)) =
     events c @ SessionRequest kind hdrs # (if body n \<noteq> ''{}'' then [StreamWrite (body n)] else [])"
  by (auto simp: request_def Let_def events_emit split: stream.splits option.splits prod.splits)

subsection \<open>Normalising the recipients\<close>

text \<open>
  Claim C9. For every notification and every recipient string \<open>r\<close>,
  \<^verbatim>\<open>send(notification, r)\<close> gives the same result, and leaves the client in the
  same state, as \<^verbatim>\<open>send(notification, [r])\<close>: a recipient that is not an array is
  made a one-element array before the fan-out.
\<close>

theorem send_single_recipient:
  "send P cfg N nets c notification (One r) = send P cfg N nets c notification (Many [r])"
  by (simp add: send_def send_sentNotifications_def split: option.splits)

subsection \<open>Writing the body\<close>

text \<open>
  Claim C6, as amended. \<^verbatim>\<open>request\<close> passes the body of the built notification to
  \<^verbatim>\<open>request.write\<close> if and only if the body is not the literal string
  \<^verbatim>\<open>{}\<close>. An empty body is written like any other.
\<close>

theorem request_writes_body:
  "(StreamWrite (body n) \<in> set (new_events c (snd (request P c kind addr n path m s))))
     = (body n \<noteq> ''{}'')"
  using request_events[of P c kind addr n path m s]
  by (auto simp: new_events_def)

theorem request_writes_body_witness:
  "StreamWrite ''{}'' \<notin> set (new_events new_client
      (snd (request sample_platform new_client PushSession ''api.push.apple.com''
              \<lparr> headers = [], body = ''{}'' \<rparr> ''/3/device/abcd1234'' (JStr ''POST'') TimedOut)))"
  using request_writes_body[of "\<lparr> headers = [], body = ''{}'' \<rparr>" new_client sample_platform
      PushSession "''api.push.apple.com''" "''/3/device/abcd1234''" "JStr ''POST''" TimedOut]
  by simp

text \<open>
  The claim as stated fails on the empty body: it is not \<^verbatim>\<open>{}\<close>, so it is passed
  to \<^verbatim>\<open>request.write\<close>.
\<close>

theorem request_writes_empty_body:
  "body \<lparr> headers = [], body = [] \<rparr> = [] \<and>
   StreamWrite [] \<in> set (new_events new_client
      (snd (request sample_platform new_client PushSession ''api.push.apple.com''
              \<lparr> headers = [], body = [] \<rparr> ''/3/device/abcd1234'' (JStr ''POST'')
              (Ended (Some [('':status'', JNum 200)]) []))))"
  apply (rule conjI)
   apply simp
  apply code_simp
  done

subsection \<open>Unsupported actions\<close>






lemma send_unbuilt:
  "buildNotification N notification = None \<Longrightarrow>
   send P cfg N nets c notification recipients = (Inl [], emit Build c)"
  by (simp add: send_def)

lemma send_built:
  "buildNotification N notification = Some b \<Longrightarrow>
   send P cfg N nets c notification recipients =
     (Inr (aggregate (fst (send_sentNotifications P cfg nets (emit Build c) b recipients))),
      snd (send_sentNotifications P cfg nets (emit Build c) b recipients))"
  by (simp add: send_def split_beta)




subsection \<open>Writing after shutdown\<close>

lemma isDestroyed_emit [simp]: "isDestroyed (emit e c) = isDestroyed c"
  by (simp add: emit_def)


















subsection \<open>Partitioning the outcomes\<close>

lemma foldl_collect:
  "foldl collect acc ss =
     \<lparr> sent = sent acc @ map settled_value
               (filter (\<lambda>s. case s of
                                Fulfilled v \<Rightarrow> \<not> truthy (getp v ''status'') \<and> \<not> truthy (getp v ''error'')
                              | Rejected r \<Rightarrow> False) ss),
       failed = failed acc @ map settled_value
               (filter (\<lambda>s. case s of
                                Fulfilled v \<Rightarrow> truthy (getp v ''status'') \<or> truthy (getp v ''error'')
                              | Rejected r \<Rightarrow> True) ss) \<rparr>"
  by (induction ss arbitrary: acc) (auto simp: collect_def split: settled.splits)

lemma count_list_partition:
  "(\<And>x. q x = (\<not> p x)) \<Longrightarrow>
   count_list (map f (filter p xs) @ map f (filter q xs)) v = count_list (map f xs) v"
  by (induction xs) auto

lemma length_partition:
  "(\<And>x. q x = (\<not> p x)) \<Longrightarrow> length (filter p xs) + length (filter q xs) = length xs"
  by (induction xs) auto

lemma length_settle_all: "length (fst (settle_all task nets c xs)) = length xs"
  by (induction xs arbitrary: nets c) (simp_all add: split_beta)

lemma settle_all_nth:
  "i < length xs \<Longrightarrow>
   \<exists>ci. fst (settle_all task nets c xs) ! i = to_settled (fst (task (nets i) ci (xs ! i)))"
proof (induction xs arbitrary: nets c i)
  case Nil
  then show ?case by simp
next
  case (Cons x xs)
  show ?case
  proof (cases i)
    case 0
    then show ?thesis
      by (auto split: prod.splits sum.splits intro!: exI[of _ c])
  next
    case (Suc j)
    with Cons.prems have "j < length xs" by simp
    from Cons.IH[OF this, of "\<lambda>n. nets (Suc n)" "snd (task (nets 0) c x)"]
    show ?thesis using Suc by (auto split: prod.splits)
  qed
qed

lemma aggregate_partition:
  "length (sent (aggregate ss)) + length (failed (aggregate ss)) = length ss
   \<and> (\<forall>v. count_list (sent (aggregate ss) @ failed (aggregate ss)) v
            = count_list (map settled_value ss) v)
   \<and> sent (aggregate ss) = map settled_value
         (filter (\<lambda>s. case s of
                          Fulfilled v \<Rightarrow> \<not> truthy (getp v ''status'') \<and> \<not> truthy (getp v ''error'')
                        | Rejected r \<Rightarrow> False) ss)
   \<and> failed (aggregate ss) = map settled_value
         (filter (\<lambda>s. case s of
                          Fulfilled v \<Rightarrow> truthy (getp v ''status'') \<or> truthy (getp v ''error'')
                        | Rejected r \<Rightarrow> True) ss)"
proof -
  have q: "\<And>s. (case s of Fulfilled v \<Rightarrow> truthy (getp v ''status'') \<or> truthy (getp v ''error'')
                        | Rejected r \<Rightarrow> True)
           = (\<not> (case s of Fulfilled v \<Rightarrow> \<not> truthy (getp v ''status'') \<and> \<not> truthy (getp v ''error'')
                        | Rejected r \<Rightarrow> False))"
    by (auto split: settled.splits)
  show ?thesis
    unfolding aggregate_def foldl_collect
    using length_partition[OF q, where xs=ss] count_list_partition[OF q, where f=settled_value and xs=ss]
    by simp
qed

text \<open>
  Claim C1, as amended. For \<^verbatim>\<open>send\<close> (once the notification is built; when
  building it throws, the call rejects with what was thrown), \<^verbatim>\<open>manageChannels\<close>
  with a supported action, and \<^verbatim>\<open>broadcast\<close> over \<open>N\<close> recipients or
  notifications, the operation resolves
  to the aggregation of \<open>N\<close> settled outcomes, the \<open>i\<close>-th being the outcome of the
  callback for the \<open>i\<close>-th input; the two lists together hold every outcome exactly once,
  so their lengths add up to \<open>N\<close>. An outcome goes to \<^verbatim>\<open>sent\<close> if and only if it is a
  fulfilled value whose \<^verbatim>\<open>status\<close> and \<^verbatim>\<open>error\<close> are both falsy (absent,
  \<^verbatim>\<open>undefined\<close>, \<^verbatim>\<open>null\<close>, \<^verbatim>\<open>false\<close>, \<^verbatim>\<open>0\<close> or the empty string), and
  to \<^verbatim>\<open>failed\<close> otherwise, rejected promises included.
\<close>

theorem batch_partition:
  "(length (sent (aggregate ss)) + length (failed (aggregate ss)) = length ss
    \<and> (\<forall>v. count_list (sent (aggregate ss) @ failed (aggregate ss)) v
             = count_list (map settled_value ss) v)
    \<and> sent (aggregate ss) = map settled_value
          (filter (\<lambda>s. case s of
                           Fulfilled v \<Rightarrow> \<not> truthy (getp v ''status'') \<and> \<not> truthy (getp v ''error'')
                         | Rejected r \<Rightarrow> False) ss)
    \<and> failed (aggregate ss) = map settled_value
          (filter (\<lambda>s. case s of
                           Fulfilled v \<Rightarrow> truthy (getp v ''status'') \<or> truthy (getp v ''error'')
                         | Rejected r \<Rightarrow> True) ss))
   \<and> (case buildNotification N notification of
         None \<Rightarrow> send P cfg N nets c notification recipients = (Inl [], emit Build c)
       | Some b \<Rightarrow>
          (\<exists>sentNotifications c1.
             send_sentNotifications P cfg nets (emit Build c) b recipients = (sentNotifications, c1)
             \<and> send P cfg N nets c notification recipients = (Inr (aggregate sentNotifications), c1)
             \<and> length sentNotifications = length (as_array recipients)
             \<and> (\<forall>i<length (as_array recipients). \<exists>ci.
                   sentNotifications ! i =
                     to_settled (fst (send_task P cfg b (nets i) ci (as_array recipients ! i))))))
   \<and> (\<forall>type method. action_route action = Some (type, method) \<longrightarrow>
        (\<exists>sentNotifications c1.
           manageChannels_sentNotifications P cfg N nets c notifications bundleId action type method
             = (sentNotifications, c1)
           \<and> manageChannels P cfg N nets c notifications bundleId action
               = (Inr (aggregate sentNotifications), c1)
           \<and> length sentNotifications = length (as_array notifications)
           \<and> (\<forall>i<length (as_array notifications). \<exists>ci.
                 sentNotifications ! i =
                   to_settled (fst (manageChannels_task P cfg N bundleId action type method
                      (nets i) ci (as_array notifications ! i))))))
   \<and> (\<exists>sentNotifications c1.
         broadcast_sentNotifications P cfg N nets c notifications bundleId = (sentNotifications, c1)
         \<and> broadcast P cfg N nets c notifications bundleId = (Inr (aggregate sentNotifications), c1)
         \<and> length sentNotifications = length (as_array notifications)
         \<and> (\<forall>i<length (as_array notifications). \<exists>ci.
               sentNotifications ! i =
                 to_settled (fst (broadcast_task P cfg N bundleId (nets i) ci
                    (as_array notifications ! i)))))"
proof -
  have s: "case buildNotification N notification of
         None \<Rightarrow> send P cfg N nets c notification recipients = (Inl [], emit Build c)
       | Some b \<Rightarrow>
          (\<exists>sentNotifications c1.
             send_sentNotifications P cfg nets (emit Build c) b recipients = (sentNotifications, c1)
             \<and> send P cfg N nets c notification recipients = (Inr (aggregate sentNotifications), c1)
             \<and> length sentNotifications = length (as_array recipients)
             \<and> (\<forall>i<length (as_array recipients). \<exists>ci.
                   sentNotifications ! i =
                     to_settled (fst (send_task P cfg b (nets i) ci (as_array recipients ! i)))))"
  proof (cases "buildNotification N notification")
    case None
    then show ?thesis by (simp add: send_unbuilt)
  next
    case (Some b)
    have "\<exists>sentNotifications c1.
             send_sentNotifications P cfg nets (emit Build c) b recipients = (sentNotifications, c1)
             \<and> send P cfg N nets c notification recipients = (Inr (aggregate sentNotifications), c1)
             \<and> length sentNotifications = length (as_array recipients)
             \<and> (\<forall>i<length (as_array recipients). \<exists>ci.
                   sentNotifications ! i =
                     to_settled (fst (send_task P cfg b (nets i) ci (as_array recipients ! i))))"
      using length_settle_all settle_all_nth
      by (cases "send_sentNotifications P cfg nets (emit Build c) b recipients")
         (auto simp: send_built[OF Some] send_sentNotifications_def dest!: arg_cong[where f=fst])
    with Some show ?thesis by simp
  qed
  have m: "\<forall>type method. action_route action = Some (type, method) \<longrightarrow>
        (\<exists>sentNotifications c1.
           manageChannels_sentNotifications P cfg N nets c notifications bundleId action type method
             = (sentNotifications, c1)
           \<and> manageChannels P cfg N nets c notifications bundleId action
               = (Inr (aggregate sentNotifications), c1)
           \<and> length sentNotifications = length (as_array notifications)
           \<and> (\<forall>i<length (as_array notifications). \<exists>ci.
                 sentNotifications ! i =
                   to_settled (fst (manageChannels_task P cfg N bundleId action type method
                      (nets i) ci (as_array notifications ! i)))))"
  proof (intro allI impI)
    fix type meth assume r: "action_route action = Some (type, meth)"
    show "\<exists>sentNotifications c1.
           manageChannels_sentNotifications P cfg N nets c notifications bundleId action type meth
             = (sentNotifications, c1)
           \<and> manageChannels P cfg N nets c notifications bundleId action
               = (Inr (aggregate sentNotifications), c1)
           \<and> length sentNotifications = length (as_array notifications)
           \<and> (\<forall>i<length (as_array notifications). \<exists>ci.
                 sentNotifications ! i =
                   to_settled (fst (manageChannels_task P cfg N bundleId action type meth
                      (nets i) ci (as_array notifications ! i))))"
      using length_settle_all settle_all_nth r
      by (cases "manageChannels_sentNotifications P cfg N nets c notifications bundleId action type meth")
         (auto simp: manageChannels_def manageChannels_sentNotifications_def dest!: arg_cong[where f=fst])
  qed
  have b: "\<exists>sentNotifications c1.
         broadcast_sentNotifications P cfg N nets c notifications bundleId = (sentNotifications, c1)
         \<and> broadcast P cfg N nets c notifications bundleId = (Inr (aggregate sentNotifications), c1)
         \<and> length sentNotifications = length (as_array notifications)
         \<and> (\<forall>i<length (as_array notifications). \<exists>ci.
               sentNotifications ! i =
                 to_settled (fst (broadcast_task P cfg N bundleId (nets i) ci
                    (as_array notifications ! i))))"
    using length_settle_all settle_all_nth
    by (cases "broadcast_sentNotifications P cfg N nets c notifications bundleId")
       (auto simp: broadcast_def broadcast_sentNotifications_def dest!: arg_cong[where f=fst])
  show ?thesis
    by (rule conjI[OF aggregate_partition[of ss] conjI[OF s conjI[OF m b]]])
qed


theorem batch_partition_witness:
  "length (sent (aggregate [Fulfilled [(''device'', JStr ''a'')],
                            Rejected [(''device'', JStr ''b''), (''error'', JErr ''apn write timeout'')]]))
     + length (failed (aggregate [Fulfilled [(''device'', JStr ''a'')],
                            Rejected [(''device'', JStr ''b''), (''error'', JErr ''apn write timeout'')]])) = 2
   \<and> (\<exists>sentNotifications c1.
         manageChannels sample_platform sample_config plain_notifications (\<lambda>i. steady TimedOut)
           new_client (One \<lparr> headers = [], body = ''{}'' \<rparr>) ''abcd1234'' ''read''
           = (Inr (aggregate sentNotifications), c1)
         \<and> length sentNotifications = 1
         \<and> (\<exists>ci. sentNotifications ! 0 =
               to_settled (fst (manageChannels_task sample_platform sample_config plain_notifications
                  ''abcd1234'' ''read'' ''channels'' ''get'' (steady TimedOut) ci
                  \<lparr> headers = [], body = ''{}'' \<rparr>))))"
proof -
  note t = batch_partition[of "[Fulfilled [(''device'', JStr ''a'')],
                            Rejected [(''device'', JStr ''b''), (''error'', JErr ''apn write timeout'')]]"
      sample_platform sample_config plain_notifications "\<lambda>i. steady TimedOut" new_client
      "\<lparr> headers = [], body = ''{}'' \<rparr>" "One ''a''" "''read''"
      "One \<lparr> headers = [], body = ''{}'' \<rparr>" "''abcd1234''"]
  have r: "action_route ''read'' = Some (''channels'', ''get'')"
    by (simp add: action_route_def)
  from t[THEN conjunct1, THEN conjunct1] have a: "length (sent (aggregate [Fulfilled [(''device'', JStr ''a'')],
                            Rejected [(''device'', JStr ''b''), (''error'', JErr ''apn write timeout'')]]))
     + length (failed (aggregate [Fulfilled [(''device'', JStr ''a'')],
                            Rejected [(''device'', JStr ''b''), (''error'', JErr ''apn write timeout'')]])) = 2"
    by simp
  from t[THEN conjunct2, THEN conjunct2, THEN conjunct1, rule_format, OF r]
  show ?thesis using a by auto
qed

text \<open>
  The claim as stated fails on a fulfilled value that carries a falsy \<^verbatim>\<open>status\<close>:
  a 200 response whose body is \<^verbatim>\<open>{"status":0}\<close> is merged into the value that
  \<^verbatim>\<open>write\<close> returns, and the value goes to \<^verbatim>\<open>sent\<close>.
\<close>

theorem sent_carries_status:
  "fst (send sample_platform sample_config plain_notifications
          (\<lambda>i. steady (Ended (Some [('':status'', JNum 200)]) (''{'' @ quoted ''status'' @ '':0}'')))
          new_client \<lparr> headers = [], body = ''{}'' \<rparr> (One ''abcd1234''))
     = Inr \<lparr> sent = [[(''device'', JStr ''abcd1234''), (''status'', JNum 0)]], failed = [] \<rparr>
   \<and> hasp [(''device'', JStr ''abcd1234''), (''status'', JNum 0)] ''status''"
  apply (rule conjI)
   apply code_simp
  apply (simp add: hasp_def)
  done

subsection \<open>Confining \<^verbatim>\<open>retryAfter\<close>\<close>

lemma hasp_dom: "hasp obj k = (k \<in> dom (map_of obj))"
  by (simp add: hasp_def dom_map_of_conv_image_fst)

lemma hasp_setp: "hasp (setp obj k v) k' = (k' = k \<or> hasp obj k')"
  by (auto simp: hasp_dom setp_def update_conv')


lemma hasp_Nil: "hasp [] k = False"
  by (simp add: hasp_def)

lemma hasp_Cons: "hasp ((k, v) # obj) k' = (k' = k \<or> hasp obj k')"
  by (auto simp: hasp_def)

lemma hasp_fold:
  "hasp (fold (\<lambda>(k, v) acc. setp acc k v) b a) k' = (hasp a k' \<or> hasp b k')"
proof (induction b arbitrary: a)
  case Nil
  show ?case by (simp add: hasp_Nil)
next
  case (Cons x b)
  obtain k v where x: "x = (k, v)" by (cases x)
  have "hasp (fold (\<lambda>(k, v) acc. setp acc k v) (x # b) a) k'
        = hasp (fold (\<lambda>(k, v) acc. setp acc k v) b (setp a k v)) k'"
    by (simp add: x)
  also have "\<dots> = (hasp (setp a k v) k' \<or> hasp b k')" by (rule Cons.IH)
  also have "\<dots> = (hasp a k' \<or> hasp (x # b) k')"
    unfolding x hasp_setp hasp_Cons by blast
  finally show ?case .
qed

lemma hasp_spread: "hasp (spread a b) k = (hasp a k \<or> hasp b k)"
  unfolding spread_def by (rule hasp_fold)


lemma hasp_createHeaderObject:
  "hasp (createHeaderObject u r ch) k \<Longrightarrow> k \<in> {''apns-unique-id'', ''apns-request-id'', ''apns-channel-id''}"
  by (auto simp: createHeaderObject_def Let_def hasp_setp hasp_Nil split: if_splits)














lemma on_end_2xx:
  "st \<in> {JNum 200, JNum 201, JNum 204} \<Longrightarrow>
   fst (on_end P tok g st ra u r ch data) =
     (case (if data \<noteq> [] then JSON_parse P data else Inr (JObj [])) of
        Inl m \<Rightarrow> Inl (unexpected m)
      | Inr parsed \<Rightarrow> Inr (spread (createHeaderObject u r ch) (own_props parsed)))"
  unfolding on_end_def Let_def by (auto split: sum.splits)



















subsection \<open>The retry limit\<close>

lemma session_of_emit [simp]: "session_of kind (emit e c) = session_of kind c"
  by (simp add: session_of_def emit_def split: session_kind.splits)

lemma retryRequest_destroyed:
  "isDestroyed c \<Longrightarrow>
   retryRequest P cfg att c error kind addr n path m cnt =
     (Inl [(''error'', JErr ''client session is either closed or destroyed'')],
      emit (RetryRequest cnt) c)"
  by (subst retryRequest.simps) (simp add: Let_def)

lemma retryRequest_no_session:
  "\<not> isDestroyed c \<Longrightarrow> session_of kind c = None \<Longrightarrow>
   retryRequest P cfg att c error kind addr n path m cnt = (Inl [], emit (RetryRequest cnt) c)"
  by (subst retryRequest.simps) (simp add: Let_def)

lemma retryRequest_closed:
  "\<not> isDestroyed c \<Longrightarrow> session_of kind c = Some s \<Longrightarrow> closed s \<Longrightarrow>
   retryRequest P cfg att c error kind addr n path m cnt =
     (Inl [(''error'', JErr ''client session is either closed or destroyed'')],
      emit (RetryRequest cnt) c)"
  by (subst retryRequest.simps) (simp add: Let_def)

lemma retryRequest_limit:
  "\<not> isDestroyed c \<Longrightarrow> session_of kind c = Some s \<Longrightarrow> \<not> closed s \<Longrightarrow>
   cnt + 1 > connectionRetryLimit cfg \<Longrightarrow>
   retryRequest P cfg att c error kind addr n path m cnt = (Inl error, emit (RetryRequest cnt) c)"
  by (subst retryRequest.simps) (simp add: Let_def)

lemma retryRequest_resent:
  "\<not> isDestroyed c \<Longrightarrow> session_of kind c = Some s \<Longrightarrow> \<not> closed s \<Longrightarrow>
   \<not> cnt + 1 > connectionRetryLimit cfg \<Longrightarrow>
   request P (emit (Delay (if truthy (getp error ''retryAfter'')
                           then getp error ''retryAfter'' else JNum 0))
                (emit (RetryRequest cnt) c))
     kind addr n path m (outcome (att 0)) = (Inr v, c1) \<Longrightarrow>
   retryRequest P cfg att c error kind addr n path m cnt = (Inr v, c1)"
  by (subst retryRequest.simps) (simp add: Let_def)

lemma retryRequest_again:
  "\<not> isDestroyed c \<Longrightarrow> session_of kind c = Some s \<Longrightarrow> \<not> closed s \<Longrightarrow>
   \<not> cnt + 1 > connectionRetryLimit cfg \<Longrightarrow>
   request P (emit (Delay (if truthy (getp error ''retryAfter'')
                           then getp error ''retryAfter'' else JNum 0))
                (emit (RetryRequest cnt) c))
     kind addr n path m (outcome (att 0)) = (Inl e', c1) \<Longrightarrow>
   retryRequest P cfg att c error kind addr n path m cnt =
     retryRequest P cfg (\<lambda>k. att (Suc k)) (session_event kind (session_lost (att 0)) c1)
       e' kind addr n path m (cnt + 1)"
  by (subst retryRequest.simps) (simp add: Let_def)

lemma requests_in_append: "requests_in (xs @ ys) = requests_in xs + requests_in ys"
  by (simp add: requests_in_def)

lemma requests_in_Nil: "requests_in [] = 0"
  by (simp add: requests_in_def)

lemma requests_in_Cons:
  "requests_in (e # es) = (if is_request e then 1 else 0) + requests_in es"
  by (simp add: requests_in_def)

lemma closeAndDestroySession_events:
  "\<exists>es. events (closeAndDestroySession kind c) = events c @ es
        \<and> set es \<subseteq> {SessionClose kind, SessionDestroy kind}"
proof (cases "session_of kind c")
  case None
  then show ?thesis by (simp add: closeAndDestroySession_def)
next
  case (Some s)
  have e: "events (set_session kind x c') = events c'" for x c'
    by (simp add: set_session_def split: session_kind.splits)
  show ?thesis
    by (cases "closed s"; cases "destroyed s")
       (simp_all add: closeAndDestroySession_def Some Let_def e events_emit)
qed

lemma session_event_events:
  "\<exists>es. events (session_event kind lost c) = events c @ es
        \<and> set es \<subseteq> {SessionClose kind, SessionDestroy kind}"
  using closeAndDestroySession_events[of kind c] by (cases lost) (simp_all add: session_event_def)

lemma quiet_events:
  "set es \<subseteq> {SessionClose kind, SessionDestroy kind} \<Longrightarrow>
   requests_in es = 0 \<and> (\<forall>k. RetryRequest k \<notin> set es)"
  by (induction es) (auto simp: requests_in_Nil requests_in_Cons)

lemma request_events_count:
  "\<exists>es. events (snd (request P c kind addr n path m s)) = events c @ es \<and> requests_in es = 1"
proof -
  from request_events[of P c kind addr n path m s] obtain hdrs where
    "events (snd (request P c kind addr n path m s)) =
       events c @ SessionRequest kind hdrs # (if body n \<noteq> ''{}'' then [StreamWrite (body n)] else [])"
    ..
  then show ?thesis
    by (intro exI[of _ "SessionRequest kind hdrs # (if body n \<noteq> ''{}'' then [StreamWrite (body n)] else [])"])
       (simp add: requests_in_Cons requests_in_Nil)
qed

lemma retryRequest_events:
  "\<exists>es. events (snd (retryRequest P cfg att c error kind addr n path m cnt))
          = events c @ RetryRequest cnt # es
        \<and> requests_in es \<le> nat (connectionRetryLimit cfg - cnt)"
proof (induction P cfg att c error kind addr n path m cnt rule: retryRequest.induct)
  case (1 P cfg att c error kind addr notification path httpMethod count)
  let ?c0 = "emit (RetryRequest count) c"
  let ?c0' = "emit (Delay (if truthy (getp error ''retryAfter'')
                                    then getp error ''retryAfter'' else JNum 0)) ?c0"
  let ?r = "request P ?c0' kind addr notification path httpMethod (outcome (att 0))"
  let ?R = "retryRequest P cfg att c error kind addr notification path httpMethod count"
  have stop: ?case if "snd ?R = ?c0"
    using that by (intro exI[of _ "[]"]) (simp add: events_emit requests_in_Nil)
  show ?case
  proof (cases "isDestroyed c")
    case True
    then show ?thesis by (intro stop) (simp add: retryRequest_destroyed)
  next
    case nd: False
    show ?thesis
    proof (cases "session_of kind c")
      case None
      with nd show ?thesis by (intro stop) (simp add: retryRequest_no_session)
    next
      case (Some s)
      show ?thesis
      proof (cases "closed s")
        case True
        with nd Some show ?thesis by (intro stop) (simp add: retryRequest_closed)
      next
        case nc: False
        show ?thesis
        proof (cases "count + 1 > connectionRetryLimit cfg")
          case True
          with nd Some nc show ?thesis by (intro stop) (simp add: retryRequest_limit)
        next
          case lim: False
          obtain r1 c1 where r: "?r = (r1, c1)" by (cases ?r)
          from request_events_count[of P ?c0' kind addr notification path httpMethod "outcome (att 0)"] r
          obtain es1 where es1: "events c1 = events ?c0' @ es1" and n1: "requests_in es1 = 1"
            by auto
          show ?thesis
          proof (cases r1)
            case (Inr v)
            with r have r': "?r = (Inr v, c1)" by simp
            from retryRequest_resent[where att=att, OF nd Some nc lim r'] have "snd ?R = c1" by simp
            with es1 n1 lim show ?thesis
              by (intro exI[of _ "Delay (if truthy (getp error ''retryAfter'')
                                    then getp error ''retryAfter'' else JNum 0) # es1"])
                 (simp add: events_emit requests_in_Cons)
          next
            case (Inl e')
            with r have r': "?r = (Inl e', c1)" by simp
            let ?c1' = "session_event kind (session_lost (att 0)) c1"
            have eq: "?R = retryRequest P cfg (\<lambda>k. att (Suc k)) ?c1' e' kind addr notification path
                             httpMethod (count + 1)"
              by (rule retryRequest_again[where att=att, OF nd Some nc lim r'])
            from session_event_events[of kind "session_lost (att 0)" c1] obtain es2 where
              es2: "events ?c1' = events c1 @ es2"
              and q: "set es2 \<subseteq> {SessionClose kind, SessionDestroy kind}" by blast
            from quiet_events[OF q] have n2: "requests_in es2 = 0" by simp
            have nd0: "\<not> isDestroyed ?c0" using nd by simp
            have s0: "session_of kind ?c0 = Some s" using Some by simp
            from "1.IH"[OF refl nd0 s0 nc lim r'[symmetric] refl]
            obtain es3 where es3: "events (snd ?R) = events ?c1' @ RetryRequest (count + 1) # es3"
              and n3: "requests_in es3 \<le> nat (connectionRetryLimit cfg - (count + 1))"
              unfolding eq by blast
            from lim n3 have "1 + requests_in es3 \<le> nat (connectionRetryLimit cfg - count)" by linarith
            with es1 es2 es3 n1 n2 show ?thesis
              by (intro exI[of _ "Delay (if truthy (getp error ''retryAfter'')
                                    then getp error ''retryAfter'' else JNum 0) # es1 @ es2
                                  @ RetryRequest (count + 1) # es3"])
                 (simp add: events_emit requests_in_Cons requests_in_append)
          qed
        qed
      qed
    qed
  qed
qed


lemma new_events_append: "events c' = events c @ es \<Longrightarrow> new_events c c' = es"
  by (simp add: new_events_def)

text \<open>
  Claim C4, as amended. \<^verbatim>\<open>retryRequest\<close> recurses on the attempt count and
  terminates; entered with count \<open>cnt\<close> it issues at most
  \<open>connectionRetryLimit - cnt\<close> requests, so at most \<open>connectionRetryLimit\<close> retries
  for a write that starts at 0. As soon as the incremented count exceeds
  \<open>connectionRetryLimit\<close>, and the client is not destroyed and the session not
  closed, the last observed failure is thrown unchanged and no request is issued. On
  a destroyed client or a closed session the failure
  \<^verbatim>\<open>client session is either closed or destroyed\<close> is thrown instead, whatever
  the count, and no request is issued either.
\<close>

theorem retryRequest_limit_respected:
  "requests_in (new_events c (snd (retryRequest P cfg att c error kind addr n path m cnt)))
     \<le> nat (connectionRetryLimit cfg - cnt)
   \<and> (\<not> isDestroyed c \<and> (\<exists>s. session_of kind c = Some s \<and> \<not> closed s)
        \<and> cnt + 1 > connectionRetryLimit cfg \<longrightarrow>
        retryRequest P cfg att c error kind addr n path m cnt = (Inl error, emit (RetryRequest cnt) c))
   \<and> (isDestroyed c \<or> (\<exists>s. session_of kind c = Some s \<and> closed s) \<longrightarrow>
        retryRequest P cfg att c error kind addr n path m cnt =
          (Inl [(''error'', JErr ''client session is either closed or destroyed'')],
           emit (RetryRequest cnt) c))"
proof -
  from retryRequest_events[of P cfg att c error kind addr n path m cnt] obtain es where
    es: "events (snd (retryRequest P cfg att c error kind addr n path m cnt))
           = events c @ RetryRequest cnt # es"
    and n: "requests_in es \<le> nat (connectionRetryLimit cfg - cnt)" by blast
  have a: "requests_in (new_events c (snd (retryRequest P cfg att c error kind addr n path m cnt)))
     \<le> nat (connectionRetryLimit cfg - cnt)"
    unfolding new_events_append[OF es] using n by (simp add: requests_in_Cons)
  have b: "\<not> isDestroyed c \<and> (\<exists>s. session_of kind c = Some s \<and> \<not> closed s)
        \<and> cnt + 1 > connectionRetryLimit cfg \<longrightarrow>
        retryRequest P cfg att c error kind addr n path m cnt = (Inl error, emit (RetryRequest cnt) c)"
    using retryRequest_limit by blast
  have c: "isDestroyed c \<or> (\<exists>s. session_of kind c = Some s \<and> closed s) \<longrightarrow>
        retryRequest P cfg att c error kind addr n path m cnt =
          (Inl [(''error'', JErr ''client session is either closed or destroyed'')],
           emit (RetryRequest cnt) c)"
  proof (cases "isDestroyed c")
    case True
    then show ?thesis by (simp add: retryRequest_destroyed)
  next
    case False
    then show ?thesis using retryRequest_closed by blast
  qed
  show ?thesis by (rule conjI[OF a conjI[OF b c]])
qed

theorem retryRequest_limit_respected_witness:
  "retryRequest sample_platform sample_config (\<lambda>i. \<lparr> outcome = TimedOut, session_lost = False \<rparr>)
     (new_client\<lparr> push_session := Some \<lparr> closed = False, destroyed = False \<rparr> \<rparr>)
     [(''status'', JNum 503)] PushSession ''api.push.apple.com''
     \<lparr> headers = [], body = ''{}'' \<rparr> ''/3/device/abcd1234'' (JStr ''POST'') 3
   = (Inl [(''status'', JNum 503)],
      emit (RetryRequest 3) (new_client\<lparr> push_session := Some \<lparr> closed = False, destroyed = False \<rparr> \<rparr>))
   \<and> requests_in (new_events new_client (snd (retryRequest sample_platform sample_config
         (\<lambda>i. \<lparr> outcome = TimedOut, session_lost = False \<rparr>) new_client
         [(''status'', JNum 503)] PushSession ''api.push.apple.com''
         \<lparr> headers = [], body = ''{}'' \<rparr> ''/3/device/abcd1234'' (JStr ''POST'') 0))) \<le> 3"
proof -
  have l: "connectionRetryLimit sample_config = 3" by (simp add: sample_config_def)
  have o: "\<not> isDestroyed (new_client\<lparr> push_session := Some \<lparr> closed = False, destroyed = False \<rparr> \<rparr>)
     \<and> (\<exists>s. session_of PushSession
               (new_client\<lparr> push_session := Some \<lparr> closed = False, destroyed = False \<rparr> \<rparr>) = Some s
            \<and> \<not> closed s)
     \<and> 3 + 1 > connectionRetryLimit sample_config"
    by (simp add: new_client_def session_of_def l)
  from retryRequest_limit_respected[of "new_client\<lparr> push_session := Some \<lparr> closed = False, destroyed = False \<rparr> \<rparr>"
      sample_platform sample_config "\<lambda>i. \<lparr> outcome = TimedOut, session_lost = False \<rparr>"
      "[(''status'', JNum 503)]" PushSession "''api.push.apple.com''"
      "\<lparr> headers = [], body = ''{}'' \<rparr>" "''/3/device/abcd1234''" "JStr ''POST''" 3,
      THEN conjunct2, THEN conjunct1, rule_format, OF o]
  have a: "retryRequest sample_platform sample_config (\<lambda>i. \<lparr> outcome = TimedOut, session_lost = False \<rparr>)
     (new_client\<lparr> push_session := Some \<lparr> closed = False, destroyed = False \<rparr> \<rparr>)
     [(''status'', JNum 503)] PushSession ''api.push.apple.com''
     \<lparr> headers = [], body = ''{}'' \<rparr> ''/3/device/abcd1234'' (JStr ''POST'') 3
   = (Inl [(''status'', JNum 503)],
      emit (RetryRequest 3) (new_client\<lparr> push_session := Some \<lparr> closed = False, destroyed = False \<rparr> \<rparr>))" .
  from retryRequest_limit_respected[of new_client
      sample_platform sample_config "\<lambda>i. \<lparr> outcome = TimedOut, session_lost = False \<rparr>"
      "[(''status'', JNum 503)]" PushSession "''api.push.apple.com''"
      "\<lparr> headers = [], body = ''{}'' \<rparr>" "''/3/device/abcd1234''" "JStr ''POST''" 0, THEN conjunct1]
  have b: "requests_in (new_events new_client (snd (retryRequest sample_platform sample_config
         (\<lambda>i. \<lparr> outcome = TimedOut, session_lost = False \<rparr>) new_client
         [(''status'', JNum 503)] PushSession ''api.push.apple.com''
         \<lparr> headers = [], body = ''{}'' \<rparr> ''/3/device/abcd1234'' (JStr ''POST'') 0))) \<le> 3"
    by (simp add: l)
  show ?thesis by (rule conjI[OF a b])
qed

text \<open>
  The claim as stated fails when the session has been closed: with the count at the
  limit, the failure thrown is not the last one observed (a 503) but the one of the
  guard that comes first. A write reaches that state when its first request fails with
  a retryable status while a session event closes the session.
\<close>

theorem retryRequest_closed_session:
  "retryRequest sample_platform sample_config (\<lambda>i. \<lparr> outcome = TimedOut, session_lost = False \<rparr>)
     (new_client\<lparr> push_session := Some \<lparr> closed = True, destroyed = True \<rparr> \<rparr>)
     [(''status'', JNum 503)] PushSession ''api.push.apple.com''
     \<lparr> headers = [], body = ''{}'' \<rparr> ''/3/device/abcd1234'' (JStr ''POST'') 3
   = (Inl [(''error'', JErr ''client session is either closed or destroyed'')],
      emit (RetryRequest 3) (new_client\<lparr> push_session := Some \<lparr> closed = True, destroyed = True \<rparr> \<rparr>))
   \<and> 3 + 1 > connectionRetryLimit sample_config
   \<and> fst (write_client sample_platform (sample_config\<lparr> connectionRetryLimit := 0 \<rparr>)
          \<lparr> connect_error = None,
            attempts = (\<lambda>i. \<lparr> outcome = Ended (Some [('':status'', JNum 503)]) ''{}'',
                               session_lost = True \<rparr>) \<rparr>
          new_client \<lparr> headers = [], body = ''{}'' \<rparr> ''abcd1234'' ''device'' ''post'' None)
     = Inl [(''device'', JStr ''abcd1234''),
            (''error'', JErr ''client session is either closed or destroyed'')]"
  apply (intro conjI)
    apply (rule retryRequest_closed[where s="\<lparr> closed = True, destroyed = True \<rparr>"])
      apply (simp_all add: new_client_def session_of_def sample_config_def)
  apply code_simp
  done

subsection \<open>Which failures are retried\<close>














text \<open>
  A 503 whose body is the JSON text \<^verbatim>\<open>null\<close>: the handler does not read
  \<^verbatim>\<open>response.reason\<close> at this status, the request is rejected with the status and
  retried up to the limit, and the last failure is thrown with the label.
\<close>

lemma scenario_unavailable:
  "write_client sample_platform sample_config
     (steady (Ended (Some [('':status'', JNum 503)]) ''null'')) new_client
     \<lparr> headers = [], body = ''{}'' \<rparr> ''abcd1234'' ''device'' ''post'' None
   = (Inl [(''device'', JStr ''abcd1234''), (''status'', JNum 503), (''response'', JNull)],
      \<lparr> isDestroyed = False,
        push_session = Some \<lparr> closed = False, destroyed = False \<rparr>,
        manageChannelsSession = None, config_token = None,
        events =
          [Connect PushSession,
           SessionRequest PushSession
             [('':scheme'', JStr ''https''), ('':method'', JStr ''POST''),
              ('':authority'', JStr ''api.push.apple.com''), ('':path'', JStr ''/3/device/abcd1234'')],
           RetryRequest 0, Delay (JNum 0),
           SessionRequest PushSession
             [('':scheme'', JStr ''https''), ('':method'', JStr ''POST''),
              ('':authority'', JStr ''api.push.apple.com''), ('':path'', JStr ''/3/device/abcd1234'')],
           RetryRequest 1, Delay (JNum 0),
           SessionRequest PushSession
             [('':scheme'', JStr ''https''), ('':method'', JStr ''POST''),
              ('':authority'', JStr ''api.push.apple.com''), ('':path'', JStr ''/3/device/abcd1234'')],
           RetryRequest 2, Delay (JNum 0),
           SessionRequest PushSession
             [('':scheme'', JStr ''https''), ('':method'', JStr ''POST''),
              ('':authority'', JStr ''api.push.apple.com''), ('':path'', JStr ''/3/device/abcd1234'')],
           RetryRequest 3] \<rparr>)"
  by code_simp

lemma getp_setp: "getp (setp obj k v) k' = (if k' = k then v else getp obj k')"
  by (simp add: getp_def setp_def update_conv')

lemma getp_Nil: "getp [] k = JUndefined"
  by (simp add: getp_def)

lemma spread_Nil: "spread a [] = a"
  by (simp add: spread_def)

lemma spread_Cons: "spread a ((k, v) # b) = spread (setp a k v) b"
  by (simp add: spread_def)

lemma getp_createHeaderObject_error: "getp (createHeaderObject u r ch) ''error'' = JUndefined"
  by (simp add: createHeaderObject_def Let_def getp_setp getp_Nil)

lemma getp_Cons: "getp ((k, v) # obj) k' = (if k' = k then v else getp obj k')"
  by (simp add: getp_def)

lemma VError_Inr: "VError P msg = Inr e \<Longrightarrow> \<exists>m. e = JErr m"
  by (auto simp: VError_def split: if_splits sum.splits)

lemma on_end_error_field:
  "fst (on_end P tok g st ra u r ch data) = Inl e \<Longrightarrow>
   getp e ''error'' = JUndefined \<or> (\<exists>msg. getp e ''error'' = JErr msg)"
  unfolding on_end_def Let_def unexpected_def
  by (auto simp: spread_Cons spread_Nil getp_setp getp_createHeaderObject_error getp_Cons getp_Nil
           split: if_splits sum.splits option.splits dest: VError_Inr)

lemma request_error_field:
  assumes "fst (request P c kind addr n path m s) = Inl e"
  shows "getp e ''error'' = JUndefined \<or> (\<exists>msg. getp e ''error'' = JErr msg)"
proof (cases s)
  case (Ended response responseData)
  with assms have "\<exists>tok g st ra u r ch. fst (on_end P tok g st ra u r ch responseData) = Inl e"
    by (cases response) (simp_all add: request_def Let_def split_beta, blast+)
  then show ?thesis using on_end_error_field by blast
next
  case TimedOut
  with assms show ?thesis by (auto simp: request_def Let_def getp_Cons)
next
  case StreamAborted
  with assms show ?thesis by (auto simp: request_def Let_def getp_Cons)
next
  case (StreamError x)
  with assms show ?thesis by (auto simp: request_def Let_def getp_Cons)
next
  case (StreamFrameError a b c)
  with assms show ?thesis by (auto simp: request_def Let_def getp_Cons)
qed

subsection \<open>Successful responses\<close>

lemma request_ended:
  "\<exists>tok g. fst (request P c kind addr n path m (Ended (Some h) data)) =
     fst (on_end P tok g (getp h '':status'') (getp h ''Retry-After'')
            (getp h ''apns-unique-id'') (getp h ''apns-request-id'') (getp h ''apns-channel-id'') data)"
  by (simp add: request_def Let_def split_beta, blast)

text \<open>
  Claim C7, as amended. When the stream of a request ends with captured status 200,
  201 or 204: if the accumulated data is empty the request resolves to the echoed
  \<^verbatim>\<open>apns-unique-id\<close>, \<^verbatim>\<open>apns-request-id\<close> and \<^verbatim>\<open>apns-channel-id\<close> headers
  (those that are truthy); if the data parses as JSON it resolves to the echoes with the
  own properties of the parsed body written over them; if \<^verbatim>\<open>JSON.parse\<close> throws
  it rejects with the error \<^verbatim>\<open>Unexpected error processing APNs response\<close>. A
  resolved value carries a \<^verbatim>\<open>status\<close> or an \<^verbatim>\<open>error\<close> field only when the parsed
  body has it.
\<close>

theorem request_success:
  assumes st: "getp h '':status'' \<in> {JNum 200, JNum 201, JNum 204}"
  shows "(data = [] \<longrightarrow>
            fst (request P c kind addr n path m (Ended (Some h) data)) =
              Inr (createHeaderObject (getp h ''apns-unique-id'') (getp h ''apns-request-id'')
                     (getp h ''apns-channel-id'')))
       \<and> (\<forall>parsed. data \<noteq> [] \<and> JSON_parse P data = Inr parsed \<longrightarrow>
            fst (request P c kind addr n path m (Ended (Some h) data)) =
              Inr (spread (createHeaderObject (getp h ''apns-unique-id'') (getp h ''apns-request-id'')
                             (getp h ''apns-channel-id''))
                     (own_props parsed)))
       \<and> (\<forall>msg. data \<noteq> [] \<and> JSON_parse P data = Inl msg \<longrightarrow>
            fst (request P c kind addr n path m (Ended (Some h) data)) =
              Inl [(''error'', JErr (''Unexpected error processing APNs response: '' @ msg))])
       \<and> (\<forall>v k. fst (request P c kind addr n path m (Ended (Some h) data)) = Inr v
                 \<and> (k = ''status'' \<or> k = ''error'') \<and> hasp v k \<longrightarrow>
            (\<exists>parsed. data \<noteq> [] \<and> JSON_parse P data = Inr parsed \<and> hasp (own_props parsed) k))"
proof -
  let ?ho = "createHeaderObject (getp h ''apns-unique-id'') (getp h ''apns-request-id'')
               (getp h ''apns-channel-id'')"
  from request_ended[of P c kind addr n path m h data] obtain tok g where
    "fst (request P c kind addr n path m (Ended (Some h) data)) =
     fst (on_end P tok g (getp h '':status'') (getp h ''Retry-After'')
            (getp h ''apns-unique-id'') (getp h ''apns-request-id'') (getp h ''apns-channel-id'') data)"
    by blast
  then have r: "fst (request P c kind addr n path m (Ended (Some h) data)) =
     (case (if data \<noteq> [] then JSON_parse P data else Inr (JObj [])) of
        Inl m \<Rightarrow> Inl (unexpected m)
      | Inr parsed \<Rightarrow> Inr (spread ?ho (own_props parsed)))"
    by (simp add: on_end_2xx[OF st])
  have a: "data = [] \<longrightarrow> fst (request P c kind addr n path m (Ended (Some h) data)) = Inr ?ho"
    unfolding r by (simp add: spread_Nil)
  have b: "\<forall>parsed. data \<noteq> [] \<and> JSON_parse P data = Inr parsed \<longrightarrow>
            fst (request P c kind addr n path m (Ended (Some h) data)) =
              Inr (spread ?ho (own_props parsed))"
    unfolding r by simp
  have c: "\<forall>msg. data \<noteq> [] \<and> JSON_parse P data = Inl msg \<longrightarrow>
            fst (request P c kind addr n path m (Ended (Some h) data)) =
              Inl [(''error'', JErr (''Unexpected error processing APNs response: '' @ msg))]"
    unfolding r by (simp add: unexpected_def)
  have d: "\<forall>v k. fst (request P c kind addr n path m (Ended (Some h) data)) = Inr v
                 \<and> (k = ''status'' \<or> k = ''error'') \<and> hasp v k \<longrightarrow>
            (\<exists>parsed. data \<noteq> [] \<and> JSON_parse P data = Inr parsed \<and> hasp (own_props parsed) k)"
  proof (intro allI impI, elim conjE)
    fix v k
    assume v: "fst (request P c kind addr n path m (Ended (Some h) data)) = Inr v"
      and k: "k = ''status'' \<or> k = ''error''" and hv: "hasp v k"
    from k have nk: "\<not> hasp ?ho k"
      using hasp_createHeaderObject[of "getp h ''apns-unique-id''" "getp h ''apns-request-id''"
          "getp h ''apns-channel-id''" k] by auto
    show "\<exists>parsed. data \<noteq> [] \<and> JSON_parse P data = Inr parsed \<and> hasp (own_props parsed) k"
    proof (cases "data = []")
      case True
      with v r have "v = ?ho" by (simp add: spread_Nil)
      with hv nk show ?thesis by simp
    next
      case False
      show ?thesis
      proof (cases "JSON_parse P data")
        case (Inl msg)
        with v r False show ?thesis by simp
      next
        case (Inr parsed)
        with v r False have "v = spread ?ho (own_props parsed)" by simp
        with hv nk have "hasp (own_props parsed) k" by (simp add: hasp_spread)
        with False Inr show ?thesis by blast
      qed
    qed
  qed
  show ?thesis by (rule conjI[OF a conjI[OF b conjI[OF c d]]])
qed

theorem request_success_witness:
  "fst (request sample_platform new_client PushSession ''api.push.apple.com''
          \<lparr> headers = [], body = ''{}'' \<rparr> ''/3/device/abcd1234'' (JStr ''POST'')
          (Ended (Some [('':status'', JNum 200), (''apns-unique-id'', JStr ''u1'')]) []))
     = Inr [(''apns-unique-id'', JStr ''u1'')]"
proof -
  have st: "getp [('':status'', JNum 200), (''apns-unique-id'', JStr ''u1'')] '':status''
              \<in> {JNum 200, JNum 201, JNum 204}"
    by (simp add: getp_Cons)
  from request_success[OF st, of "[]" sample_platform new_client PushSession "''api.push.apple.com''"
      "\<lparr> headers = [], body = ''{}'' \<rparr>" "''/3/device/abcd1234''" "JStr ''POST''", THEN conjunct1]
  show ?thesis
    by (simp add: createHeaderObject_def Let_def getp_Cons getp_Nil setp_def)
qed

text \<open>
  The claim as stated fails on a 200 response whose body is not JSON, which is rejected,
  and on one whose body carries a \<^verbatim>\<open>status\<close> key, which is resolved with it.
\<close>

theorem request_rejects_malformed_body:
  "fst (request sample_platform new_client PushSession ''api.push.apple.com''
          \<lparr> headers = [], body = ''{}'' \<rparr> ''/3/device/abcd1234'' (JStr ''POST'')
          (Ended (Some [('':status'', JNum 200)]) ''<html>''))
     = Inl [(''error'', JErr ''Unexpected error processing APNs response: Unexpected token'')]
   \<and> fst (request sample_platform new_client PushSession ''api.push.apple.com''
          \<lparr> headers = [], body = ''{}'' \<rparr> ''/3/device/abcd1234'' (JStr ''POST'')
          (Ended (Some [('':status'', JNum 200)]) (''{'' @ quoted ''status'' @ '':0}'')))
     = Inr [(''status'', JNum 0)]"
  apply (rule conjI)
   apply code_simp
  apply code_simp
  done

subsection \<open>Choosing the session\<close>

text \<open>
  Claim C5 does not hold of the code. \<^verbatim>\<open>write\<close> picks the management session by
  \<^verbatim>\<open>path.includes('/1/apps/')\<close>, a test on the whole path and not on its
  beginning: a \<^verbatim>\<open>device\<close> request whose token contains \<^verbatim>\<open>/1/apps/\<close> is
  issued on the management session with the \<^verbatim>\<open>manageChannels\<close> address as
  authority, although its path begins with \<^verbatim>\<open>/3/device/\<close>.
\<close>

theorem device_request_on_management_session:
  "events (snd (write_client sample_platform sample_config
                  (steady (Ended (Some [('':status'', JNum 200)]) [])) new_client
                  \<lparr> headers = [], body = ''{}'' \<rparr> ''a/1/apps/b'' ''device'' ''post'' None))
     = [Connect ManageChannelsSession,
        SessionRequest ManageChannelsSession
          [('':scheme'', JStr ''https''), ('':method'', JStr ''POST''),
           ('':authority'', JStr ''api-manage-broadcast.push.apple.com''),
           ('':path'', JStr ''/3/device/a/1/apps/b'')]]"
  by code_simp

subsection \<open>Scenarios\<close>

text \<open>
  The model on the literal scenarios of the provider's documentation: a single
  success, a server rejection, a channel creation and a broadcast.
\<close>

lemma scenario_single_success:
  "fst (send sample_platform sample_config plain_notifications
          (\<lambda>i. steady (Ended (Some [('':status'', JNum 200)]) []))
          new_client \<lparr> headers = [], body = ''x'' \<rparr> (One ''abcd1234''))
     = Inr \<lparr> sent = [[(''device'', JStr ''abcd1234'')]], failed = [] \<rparr>"
  by code_simp

lemma scenario_server_rejection:
  "fst (send sample_platform sample_config plain_notifications
          (\<lambda>i. steady (Ended (Some [('':status'', JNum 400)])
                  (''{'' @ quoted ''reason'' @ '':'' @ quoted ''BadDeviceToken'' @ ''}'')))
          new_client \<lparr> headers = [], body = ''x'' \<rparr> (One ''abcd1234''))
     = Inr \<lparr> sent = [],
            failed = [[(''device'', JStr ''abcd1234''), (''status'', JNum 400),
                       (''response'', JObj [(''reason'', JStr ''BadDeviceToken'')])]] \<rparr>"
  by code_simp

lemma scenario_channel_create:
  "manageChannels sample_platform sample_config plain_notifications
     (\<lambda>i. steady (Ended (Some [('':status'', JNum 201), (''apns-request-id'', JStr ''r1'')]) []))
     new_client (One \<lparr> headers = [], body = ''x'' \<rparr>) ''abcd1234'' ''create''
   = (Inr \<lparr> sent = [[(''bundleId'', JStr ''abcd1234''), (''apns-request-id'', JStr ''r1'')]],
            failed = [] \<rparr>,
      \<lparr> isDestroyed = False, push_session = None,
        manageChannelsSession = Some \<lparr> closed = False, destroyed = False \<rparr>,
        config_token = None,
        events =
          [Build, Connect ManageChannelsSession,
           SessionRequest ManageChannelsSession
             [('':scheme'', JStr ''https''), ('':method'', JStr ''POST''),
              ('':authority'', JStr ''api-manage-broadcast.push.apple.com''),
              ('':path'', JStr ''/1/apps/abcd1234/channels'')],
           StreamWrite ''x''] \<rparr>)"
  by code_simp

lemma scenario_broadcast:
  "broadcast sample_platform sample_config plain_notifications
     (\<lambda>i. steady (Ended (Some [('':status'', JNum 200), (''apns-channel-id'', JStr ''ch1'')]) []))
     new_client (One \<lparr> headers = [(''apns-channel-id'', JStr ''ch1'')], body = ''x'' \<rparr>) ''abcd1234''
   = (Inr \<lparr> sent = [[(''bundleId'', JStr ''abcd1234''), (''apns-channel-id'', JStr ''ch1'')]],
            failed = [] \<rparr>,
      \<lparr> isDestroyed = False,
        push_session = Some \<lparr> closed = False, destroyed = False \<rparr>,
        manageChannelsSession = None, config_token = None,
        events =
          [Build, Connect PushSession,
           SessionRequest PushSession
             [('':scheme'', JStr ''https''), ('':method'', JStr ''POST''),
              ('':authority'', JStr ''api.push.apple.com''),
              ('':path'', JStr ''/4/broadcasts/apps/abcd1234''),
              (''apns-channel-id'', JStr ''ch1'')],
           StreamWrite ''x''] \<rparr>)"
  by code_simp

lemma scenario_expired_token:
  "fst (send sample_platform sample_config plain_notifications
          (\<lambda>i. steady (Ended (Some [('':status'', JNum 403)])
                  (''{'' @ quoted ''reason'' @ '':'' @ quoted ''ExpiredProviderToken'' @ ''}'')))
          (new_client\<lparr> config_token := Some \<lparr> current = ''jwt-0'', generation = 0, stale = False \<rparr> \<rparr>)
          \<lparr> headers = [], body = ''x'' \<rparr> (One ''abcd1234''))
     = Inr \<lparr> sent = [],
            failed = [[(''device'', JStr ''abcd1234''), (''status'', JNum 403),
                       (''error'', JErr ''ExpiredProviderToken'')]] \<rparr>"
  by code_simp

end
